theory Spec2Isabelle
  imports Main "HOL-Library.Word"
begin

section \<open>Errors\<close>

text \<open>
  Every way in which the transformation engine can throw. \<open>ASTReuseMismatch\<close> is the
  error raised by the remembered generate closure (\<open>new Error('Asset has an AST but no
  generate method is available on the transform')\<close>); \<open>NullThrows\<close> is a failed
  \<open>nullthrows\<close>;
  \<open>TypeError\<close> is a property access or call on \<open>undefined\<close>/\<open>null\<close>; \<open>URIError\<close> is
  thrown by \<open>decodeURIComponent\<close>; \<open>ContentReadError\<close> is a failed read stream;
  \<open>HookError\<close> is whatever a plugin hook or a host callback throws.
\<close>

datatype error =
    ASTReuseMismatch
  | NullThrows
  | TypeError
  | URIError
  | ContentReadError string
  | HookError string

section \<open>Content source: \<open>summarizeRequest\<close>\<close>

type_synonym byte = "8 word"
type_synonym FilePath = string

text \<open>
  \<open>Blob = string | Buffer | Readable\<close>. A readable stream over a file is identified by the
  path it re-opens. Strings are byte strings (UTF-8), so \<open>Buffer.from(code).length\<close> is
  the length of the list.
\<close>

datatype Blob =
    StringBlob string
  | BufferBlob "byte list"
  | StreamBlob FilePath

type_synonym Environment = string

record AssetRequest =
  filePath :: FilePath
  code :: "string option"
  env :: Environment
  sideEffects :: "bool option"

text \<open>
  The input file system: \<open>createReadStream path\<close> delivers the file as a sequence of
  chunks, or fails (\<open>None\<close>).
\<close>

type_synonym FileSystem = "FilePath \<Rightarrow> byte list list option"

text \<open>
  The md5 functions of the utilities package are parameters of the model: the digest of
  a byte sequence, and the digest of a string.
\<close>

record Hashing =
  md5Bytes :: "byte list \<Rightarrow> string"
  md5FromString :: "string \<Rightarrow> string"

definition BUFFER_LIMIT :: nat where
  "BUFFER_LIMIT = 5000000"

record Summary =
  content :: Blob
  hash :: string
  size :: nat

text \<open>
  The callback given to \<open>TapStream\<close> in \<open>summarizeRequest\<close>; the captured variables
  \<open>content\<close> and \<open>size\<close> are the state it updates.
\<close>

definition tap :: "FilePath \<Rightarrow> Blob \<times> nat \<Rightarrow> byte list \<Rightarrow> Blob \<times> nat" where
  "tap path st buf =
     (let size' = snd st + length buf in
      case fst st of
        BufferBlob b \<Rightarrow>
          if size' > BUFFER_LIMIT then (StreamBlob path, size')
          else (BufferBlob (b @ buf), size')
      | other \<Rightarrow> (other, size'))"

text \<open>
  Modelled from the spec: \<open>TapStream\<close> and \<open>md5FromReadableStream\<close> of the utilities
  package are not part of the sources at hand. A tap stream calls its callback on every
  chunk, in order, and passes the chunk on unchanged; the stream digest is the md5 of all
  bytes that went through.
\<close>

definition TapStream :: "('s \<Rightarrow> byte list \<Rightarrow> 's) \<Rightarrow> 's \<Rightarrow> byte list list \<Rightarrow> 's \<times> byte list list" where
  "TapStream cb s chunks = (foldl cb s chunks, chunks)"

definition md5FromReadableStream :: "Hashing \<Rightarrow> byte list list \<Rightarrow> string" where
  "md5FromReadableStream h chunks = md5Bytes h (concat chunks)"

definition summarizeRequest :: "Hashing \<Rightarrow> FileSystem \<Rightarrow> AssetRequest \<Rightarrow> error + Summary" where
  "summarizeRequest h fs req =
     (case code req of
        None \<Rightarrow>
          (case fs (filePath req) of
             None \<Rightarrow> Inl (ContentReadError (filePath req))
           | Some chunks \<Rightarrow>
               (let tapped = TapStream (tap (filePath req)) (BufferBlob [], 0) chunks in
                Inr \<lparr>content = fst (fst tapped),
                     hash = md5FromReadableStream h (snd tapped),
                     size = snd (fst tapped)\<rparr>))
      | Some c \<Rightarrow>
          Inr \<lparr>content = StringBlob c, hash = md5FromString h c, size = length c\<rparr>)"


section \<open>Assets\<close>

text \<open>
  An AST is tagged with its dialect (\<open>type\<close>) and the dialect's version; the tree itself
  is opaque to the engine.
\<close>

record AST =
  astType :: string
  version :: string
  program :: string

type_synonym SourceMap = string
type_synonym Meta = string
type_synonym File = string
type_synonym PackageName = string

text \<open>
  \<open>DependencyOptions\<close>; every field is optional in the \<open>$Shape\<close> that
  \<open>addURLDependency\<close> accepts, so every field is an option here and \<open>None\<close> is an
  absent property.
\<close>

record DependencyOptions =
  moduleSpecifier :: "string option"
  isURL :: "bool option"
  isAsync :: "bool option"
  isEntry :: "bool option"
  isOptional :: "bool option"

text \<open>
  A result descriptor returned by a transformer. Its field names are those of the
  source; they are shared with the asset record below and are written qualified
  (\<open>TransformerResult.type\<close>).
\<close>

record TransformerResult =
  type :: string
  content :: Blob
  ast :: "AST option"
  sourceMap :: "SourceMap option"
  dependencies :: "DependencyOptions list"
  connectedFiles :: "File list"
  env :: "Environment option"
  isIsolated :: "bool option"
  meta :: "Meta option"

text \<open>
  The internal asset (the store behind the \<open>Asset\<close> and \<open>MutableAsset\<close> views). The
  field \<open>map\<close> of the source is \<open>sourceMap\<close> here, and \<open>stats.size\<close> is \<open>statsSize\<close>.
  The identity fields (\<open>idBase\<close>, \<open>id\<close>) and \<open>outputHash\<close> are written by code that is
  not part of the sources at hand and are read by none of the operations below.
\<close>

record InternalAsset =
  filePath :: FilePath
  type :: string
  content :: Blob
  ast :: "AST option"
  sourceMap :: "SourceMap option"
  hash :: string
  env :: Environment
  statsSize :: nat
  sideEffects :: "bool option"
  isIsolated :: bool
  meta :: Meta
  dependencies :: "DependencyOptions list"
  connectedFiles :: "File list"

text \<open>
  Modelled from the spec: \<open>InternalAsset.createChildAsset\<close> is not part of the sources
  at hand. The child takes type, content, AST and source map from the result descriptor;
  dependencies, connected files and the environment are inherited from the parent, and
  so are the flags unless the descriptor sets them. The spec says nothing else about the
  child, and every other field is that of the parent.
\<close>

definition createChildAsset :: "InternalAsset \<Rightarrow> TransformerResult \<Rightarrow> InternalAsset" where
  "createChildAsset parent r =
     parent\<lparr>type := TransformerResult.type r,
            content := TransformerResult.content r,
            ast := TransformerResult.ast r,
            sourceMap := TransformerResult.sourceMap r,
            env := (case TransformerResult.env r of None \<Rightarrow> env parent | Some e \<Rightarrow> e),
            isIsolated := (case TransformerResult.isIsolated r of
                             None \<Rightarrow> isIsolated parent | Some b \<Rightarrow> b),
            meta := (case TransformerResult.meta r of None \<Rightarrow> meta parent | Some m \<Rightarrow> m)\<rparr>"

section \<open>The transformer contract\<close>

type_synonym ConfigResult = string

record GenerateOutput =
  code :: string
  map' :: "SourceMap option"

text \<open>
  What \<open>transform\<close> returns: result descriptors and mutable-asset views. A view is given
  with the state of the store behind it, which is what \<open>normalizeAssets\<close> reads.
\<close>

datatype TransformOutput =
    Result TransformerResult
  | View InternalAsset

text \<open>
  A transformer plugin. The optional hooks are options. Every hook but \<open>canReuseAST\<close>
  receives a mutable view of the asset, so it returns the asset as it leaves it next to
  its result, and it may throw. The \<open>options\<close> and \<open>resolve\<close> arguments are the same for
  every call and are left to the hooks.
\<close>

record Transformer =
  getConfig :: "(InternalAsset \<Rightarrow> error + ConfigResult option \<times> InternalAsset) option"
  canReuseAST :: "(AST \<Rightarrow> bool) option"
  parse :: "(InternalAsset \<Rightarrow> ConfigResult option \<Rightarrow> error + AST option \<times> InternalAsset) option"
  transform :: "InternalAsset \<Rightarrow> ConfigResult option \<Rightarrow> error + TransformOutput list \<times> InternalAsset"
  generate :: "(InternalAsset \<Rightarrow> ConfigResult option \<Rightarrow> error + GenerateOutput \<times> InternalAsset) option"
  postProcess :: "(InternalAsset list \<Rightarrow> ConfigResult option \<Rightarrow> error + TransformerResult list option) option"

definition normalizeAssets :: "TransformOutput list \<Rightarrow> TransformerResult list" where
  "normalizeAssets results =
     List.map (\<lambda>result. case result of
         Result r \<Rightarrow> r
       | View internalAsset \<Rightarrow>
           \<lparr>TransformerResult.type = type internalAsset,
            content = content internalAsset,
            ast = ast internalAsset,
            sourceMap = sourceMap internalAsset,
            dependencies = dependencies internalAsset,
            connectedFiles = connectedFiles internalAsset,
            env = Some (env internalAsset),
            isIsolated = Some (isIsolated internalAsset),
            meta = Some (meta internalAsset)\<rparr>) results"

section \<open>The pipeline\<close>

text \<open>
  A config as the engine sees it: the result that is handed to the transformer, and the
  two fields that take part in cache keys. A \<open>ConfigMap\<close> is a JavaScript \<open>Map\<close>: an
  association list in insertion order.
\<close>

record Config =
  result :: "ConfigResult option"
  resultHash :: string
  devDeps :: "(PackageName \<times> string option) list"

type_synonym ConfigMap = "(PackageName \<times> Config) list"

text \<open>\<open>TransformerWithNameAndConfig\<close>; \<open>plugins[i]\<close> is \<open>undefined\<close> beyond the end of \<open>plugins\<close>.\<close>

record TransformerWithNameAndConfig =
  name :: PackageName
  plugin :: "Transformer option"
  config :: "ConfigResult option"

text \<open>
  The two closures that \<open>runTransformer\<close> stores on the pipeline, with what they capture:
  the transformer and the config for \<open>generate\<close>; the transformer's \<open>postProcess\<close>, the
  config and the asset for \<open>postProcess\<close>.
\<close>

record GenerateFunc =
  genTransformer :: Transformer
  genConfig :: "ConfigResult option"

record PostProcessFunc =
  ppHook :: "InternalAsset list \<Rightarrow> ConfigResult option \<Rightarrow> error + TransformerResult list option"
  ppConfig :: "ConfigResult option"
  ppAsset :: InternalAsset

record Pipeline =
  id' :: string
  transformers :: "TransformerWithNameAndConfig list"
  configs :: ConfigMap
  generate :: "GenerateFunc option"
  postProcess :: "PostProcessFunc option"

text \<open>
  The calls that the engine makes to its collaborators, in the order in which it makes
  them. A hook call is recorded with the asset as the hook receives it; \<open>GenerateCall\<close> is
  a call of the remembered generate closure.
\<close>

datatype event =
    GetConfigCall InternalAsset
  | GenerateCall InternalAsset
  | ParseCall InternalAsset
  | TransformCall InternalAsset
  | PostProcessCall "InternalAsset list"
  | LoadPipeline FilePath
  | CacheGet string
  | GetCode InternalAsset
  | Commit InternalAsset string
  | CacheSet string "InternalAsset list"

text \<open>\<open>Array.prototype.join\<close> on strings.\<close>

fun join :: "string \<Rightarrow> string list \<Rightarrow> string" where
  "join sep [] = []"
| "join sep [x] = x"
| "join sep (x # y # ys) = x @ sep @ join sep (y # ys)"

definition nth_opt :: "'a list \<Rightarrow> nat \<Rightarrow> 'a option" where
  "nth_opt xs i = (if i < length xs then Some (xs ! i) else None)"

text \<open>
  The constructor of \<open>Pipeline\<close>. The resolver runner it builds is used by the \<open>resolve\<close>
  argument of the hooks only.
\<close>

definition newPipeline :: "PackageName list \<Rightarrow> Transformer list \<Rightarrow> ConfigMap \<Rightarrow> error + Pipeline" where
  "newPipeline names plugins cfgs =
     (case map_of cfgs ''parcel'' of
        None \<Rightarrow> Inl NullThrows
      | Some parcelConfig \<Rightarrow>
          (case result parcelConfig of
             None \<Rightarrow> Inl NullThrows
           | Some _ \<Rightarrow>
               Inr \<lparr>id' = join '':'' names,
                    transformers =
                      List.map (\<lambda>(i, n).
                          \<lparr>name = n,
                           plugin = nth_opt plugins i,
                           config = (case map_of cfgs n of None \<Rightarrow> None | Some c \<Rightarrow> result c)\<rparr>)
                        (enumerate 0 names),
                    configs = cfgs,
                    generate = None,
                    postProcess = None\<rparr>))"

text \<open>
  Calling the remembered generate closure: it hands over to the transformer's \<open>generate\<close>
  when there is one and throws otherwise.
\<close>

definition callGenerate :: "GenerateFunc \<Rightarrow> InternalAsset \<Rightarrow> error + GenerateOutput \<times> InternalAsset" where
  "callGenerate g input =
     (case Transformer.generate (genTransformer g) of
        Some f \<Rightarrow> f input (genConfig g)
      | None \<Rightarrow> Inl ASTReuseMismatch)"

text \<open>
  Calling the remembered postProcess closure. \<open>results.map\<close> throws when the hook returned
  \<open>null\<close>, so the closure itself never returns \<open>null\<close>.
\<close>

definition callPostProcess :: "PostProcessFunc \<Rightarrow> InternalAsset list \<Rightarrow> error + InternalAsset list option" where
  "callPostProcess pp assets =
     (case ppHook pp assets (ppConfig pp) of
        Inl e \<Rightarrow> Inl e
      | Inr None \<Rightarrow> Inl TypeError
      | Inr (Some results) \<Rightarrow> Inr (Some (List.map (createChildAsset (ppAsset pp)) results)))"

subsection \<open>\<open>Pipeline.runTransformer\<close>\<close>

text \<open>Loading the config of the transformer (the deprecated \<open>getConfig\<close> hook).\<close>

definition loadConfigStep ::
  "Transformer \<Rightarrow> ConfigResult option \<Rightarrow> InternalAsset \<Rightarrow> event list
     \<Rightarrow> error + ConfigResult option \<times> InternalAsset \<times> event list" where
  "loadConfigStep transformer preloadedConfig asset tr =
     (case getConfig transformer of
        None \<Rightarrow> Inr (preloadedConfig, asset, tr)
      | Some f \<Rightarrow>
          (case f asset of
             Inl e \<Rightarrow> Inl e
           | Inr (cfg, asset') \<Rightarrow> Inr (cfg, asset', tr @ [GetConfigCall asset])))"

text \<open>
  ``If an ast exists on the asset, but we cannot reuse it, use the previous transform to
  generate code that we can re-parse.''
\<close>

definition cannotReuse :: "Transformer \<Rightarrow> AST \<Rightarrow> bool" where
  "cannotReuse transformer a =
     (case canReuseAST transformer of None \<Rightarrow> True | Some f \<Rightarrow> \<not> f a)"

definition regenerateStep ::
  "Pipeline \<Rightarrow> Transformer \<Rightarrow> InternalAsset \<Rightarrow> event list \<Rightarrow> error + InternalAsset \<times> event list" where
  "regenerateStep this transformer asset tr =
     (case ast asset of
        None \<Rightarrow> Inr (asset, tr)
      | Some a \<Rightarrow>
          if cannotReuse transformer a then
            (case generate this of
               None \<Rightarrow> Inr (asset, tr)
             | Some g \<Rightarrow>
                 (case callGenerate g asset of
                    Inl e \<Rightarrow> Inl e
                  | Inr (output, asset') \<Rightarrow>
                      Inr (asset'\<lparr>content := StringBlob (code output), ast := None\<rparr>,
                           tr @ [GenerateCall asset])))
          else Inr (asset, tr))"

text \<open>``Parse if there is no AST available from a previous transform.''\<close>

definition parseStep ::
  "Transformer \<Rightarrow> ConfigResult option \<Rightarrow> InternalAsset \<Rightarrow> event list
     \<Rightarrow> error + InternalAsset \<times> event list" where
  "parseStep transformer cfg asset tr =
     (case ast asset of
        Some a \<Rightarrow> Inr (asset, tr)
      | None \<Rightarrow>
          (case parse transformer of
             None \<Rightarrow> Inr (asset, tr)
           | Some f \<Rightarrow>
               (case f asset cfg of
                  Inl e \<Rightarrow> Inl e
                | Inr (a, asset') \<Rightarrow> Inr (asset'\<lparr>ast := a\<rparr>, tr @ [ParseCall asset]))))"

text \<open>
  The call of \<open>transform\<close>, the normalisation of its results, and the two closures
  remembered for later.
\<close>

definition transformStep ::
  "Pipeline \<Rightarrow> Transformer \<Rightarrow> ConfigResult option \<Rightarrow> InternalAsset \<Rightarrow> event list
     \<Rightarrow> error + TransformerResult list \<times> InternalAsset \<times> Pipeline \<times> event list" where
  "transformStep this transformer cfg asset tr =
     (case transform transformer asset cfg of
        Inl e \<Rightarrow> Inl e
      | Inr (outputs, asset') \<Rightarrow>
          Inr (normalizeAssets outputs,
               asset',
               this\<lparr>generate := Some \<lparr>genTransformer = transformer, genConfig = cfg\<rparr>,
                    postProcess :=
                      (case Transformer.postProcess transformer of
                         None \<Rightarrow> postProcess this
                       | Some f \<Rightarrow> Some \<lparr>ppHook = f, ppConfig = cfg, ppAsset = asset'\<rparr>)\<rparr>,
               tr @ [TransformCall asset]))"

definition runTransformer ::
  "Pipeline \<Rightarrow> event list \<Rightarrow> InternalAsset \<Rightarrow> Transformer \<Rightarrow> ConfigResult option
     \<Rightarrow> error + TransformerResult list \<times> InternalAsset \<times> Pipeline \<times> event list" where
  "runTransformer this tr asset transformer preloadedConfig =
     (case loadConfigStep transformer preloadedConfig asset tr of
        Inl e \<Rightarrow> Inl e
      | Inr (cfg, asset1, tr1) \<Rightarrow>
          (case regenerateStep this transformer asset1 tr1 of
             Inl e \<Rightarrow> Inl e
           | Inr (asset2, tr2) \<Rightarrow>
               (case parseStep transformer cfg asset2 tr2 of
                  Inl e \<Rightarrow> Inl e
                | Inr (asset3, tr3) \<Rightarrow> transformStep this transformer cfg asset3 tr3)))"

subsection \<open>\<open>finalize\<close> and \<open>Pipeline.transform\<close>\<close>

definition finalize ::
  "InternalAsset \<Rightarrow> GenerateFunc option \<Rightarrow> event list \<Rightarrow> error + InternalAsset \<times> event list" where
  "finalize asset gen tr =
     (case (ast asset, gen) of
        (Some a, Some g) \<Rightarrow>
          (case callGenerate g asset of
             Inl e \<Rightarrow> Inl e
           | Inr (res, asset') \<Rightarrow>
               Inr (asset'\<lparr>content := StringBlob (code res), sourceMap := map' res\<rparr>,
                    tr @ [GenerateCall asset]))
      | _ \<Rightarrow> Inr (asset, tr))"

fun finalizeAll ::
  "GenerateFunc option \<Rightarrow> event list \<Rightarrow> InternalAsset list \<Rightarrow> error + InternalAsset list \<times> event list" where
  "finalizeAll gen tr [] = Inr ([], tr)"
| "finalizeAll gen tr (asset # rest) =
     (case finalize asset gen tr of
        Inl e \<Rightarrow> Inl e
      | Inr (asset', tr') \<Rightarrow>
          (case finalizeAll gen tr' rest of
             Inl e \<Rightarrow> Inl e
           | Inr (rest', tr'') \<Rightarrow> Inr (asset' # rest', tr'')))"

text \<open>
  The inner loop of \<open>Pipeline.transform\<close>: one transformer over the working set
  \<open>inputAssets\<close>, filling \<open>resultingAssets\<close> and \<open>finalAssets\<close>.
\<close>

fun transformAssets ::
  "Pipeline \<Rightarrow> event list \<Rightarrow> string \<Rightarrow> TransformerWithNameAndConfig \<Rightarrow> InternalAsset list
     \<Rightarrow> InternalAsset list \<Rightarrow> InternalAsset list
     \<Rightarrow> error + InternalAsset list \<times> InternalAsset list \<times> Pipeline \<times> event list" where
  "transformAssets this tr initialType transformer [] resultingAssets finalAssets =
     Inr (resultingAssets, finalAssets, this, tr)"
| "transformAssets this tr initialType transformer (asset # rest) resultingAssets finalAssets =
     (if type asset \<noteq> initialType then
        transformAssets this tr initialType transformer rest resultingAssets (finalAssets @ [asset])
      else
        (case plugin transformer of
           None \<Rightarrow> Inl TypeError
         | Some p \<Rightarrow>
             (case runTransformer this tr asset p (config transformer) of
                Inl e \<Rightarrow> Inl e
              | Inr (transformerResults, asset', this', tr') \<Rightarrow>
                  transformAssets this' tr' initialType transformer rest
                    (resultingAssets @ List.map (createChildAsset asset') transformerResults)
                    finalAssets)))"

text \<open>
  The outer loop, over the transformers. \<open>resultingAssets\<close> is declared without a value,
  so it is \<open>None\<close> until the first transformer has run.
\<close>

fun transformStages ::
  "Pipeline \<Rightarrow> event list \<Rightarrow> string \<Rightarrow> TransformerWithNameAndConfig list \<Rightarrow> InternalAsset list
     \<Rightarrow> InternalAsset list option \<Rightarrow> InternalAsset list
     \<Rightarrow> error + InternalAsset list option \<times> InternalAsset list \<times> Pipeline \<times> event list" where
  "transformStages this tr initialType [] inputAssets resultingAssets finalAssets =
     Inr (resultingAssets, finalAssets, this, tr)"
| "transformStages this tr initialType (transformer # rest) inputAssets resultingAssets finalAssets =
     (case transformAssets this tr initialType transformer inputAssets [] finalAssets of
        Inl e \<Rightarrow> Inl e
      | Inr (resulting, finalAssets', this', tr') \<Rightarrow>
          transformStages this' tr' initialType rest resulting (Some resulting) finalAssets')"

text \<open>
  \<open>Pipeline.transform\<close>. With no transformer at all, \<open>finalAssets.concat(undefined)\<close> is
  \<open>[undefined]\<close> and \<open>nullthrows\<close> throws.
\<close>

definition Pipeline_transform ::
  "Pipeline \<Rightarrow> event list \<Rightarrow> InternalAsset \<Rightarrow> error + InternalAsset list \<times> Pipeline \<times> event list" where
  "Pipeline_transform this tr initialAsset =
     (case transformStages this tr (type initialAsset) (transformers this) [initialAsset] None [] of
        Inl e \<Rightarrow> Inl e
      | Inr (resultingAssets, finalAssets, this', tr') \<Rightarrow>
          (case resultingAssets of
             None \<Rightarrow> Inl NullThrows
           | Some resulting \<Rightarrow>
               (case finalizeAll (generate this') tr' (finalAssets @ resulting) of
                  Inl e \<Rightarrow> Inl e
                | Inr (assets, tr'') \<Rightarrow> Inr (assets, this', tr''))))"

section \<open>The transformation driver\<close>

record ImpactfulOptions =
  minify :: bool
  hot :: bool
  scopeHoist :: bool

text \<open>The object that \<open>getCacheKey\<close> hashes; an asset contributes file path, hash and type.\<close>

record CacheKeyInfo =
  keyAssets :: "(FilePath \<times> string \<times> string) list"
  keyConfigs :: "(string \<times> (PackageName \<times> string option) list) list"
  keyEnv :: Environment
  keyImpactfulOptions :: ImpactfulOptions

text \<open>
  A \<open>Transformation\<close>: the request, the options it reads, and its collaborators, which
  are parameters of the model: \<open>md5FromObject\<close> on cache-key objects and on the impactful
  options, \<open>path.extname\<close>, the number of bytes that a stream over a path delivers, and
  the host's config loading and plugin resolution, which \<open>loadPipeline\<close> asks for the
  transformer names, the plugins and the configs of a path.
\<close>

record Transformation =
  request :: AssetRequest
  cacheOption :: bool
  impactfulOptions :: ImpactfulOptions
  md5FromObject :: "CacheKeyInfo \<Rightarrow> string"
  md5FromOptions :: "ImpactfulOptions \<Rightarrow> string"
  extname :: "FilePath \<Rightarrow> string"
  streamSize :: "FilePath \<Rightarrow> nat"
  resolveTransformers :: "FilePath \<Rightarrow> error + PackageName list \<times> Transformer list \<times> ConfigMap"

text \<open>
  What a transformation changes outside the assets: the artifact cache, and the record
  of the calls made.

  Modelled from the spec: the cache class and the method \<open>getCode\<close> of the internal
  asset are not part of the sources at hand. The artifact cache is a store from keys to
  asset lists: \<open>get\<close> returns what the latest \<open>set\<close> stored under the key, or nothing.
  \<open>getCode\<close> materializes the code of an asset, warming the blob store; it is recorded as
  a call.
\<close>

record World =
  cache :: "string \<rightharpoonup> InternalAsset list"
  trace :: "event list"

definition getCacheKey :: "Transformation \<Rightarrow> InternalAsset list \<Rightarrow> ConfigMap \<Rightarrow> string" where
  "getCacheKey this assets cfgs =
     md5FromObject this
       \<lparr>keyAssets = List.map (\<lambda>a. (filePath a, hash a, type a)) assets,
        keyConfigs = List.map (\<lambda>(n, c). (resultHash c, devDeps c)) cfgs,
        keyEnv = AssetRequest.env (request this),
        keyImpactfulOptions = impactfulOptions this\<rparr>"

text \<open>
  \<open>readFromCache\<close>. On a hit, \<open>getCode\<close> is called on every asset of the list that was
  passed in.
\<close>

definition readFromCache ::
  "Transformation \<Rightarrow> World \<Rightarrow> InternalAsset list \<Rightarrow> ConfigMap \<Rightarrow> InternalAsset list option \<times> World" where
  "readFromCache this w assets cfgs =
     (if cacheOption this = False \<or> AssetRequest.code (request this) \<noteq> None then (None, w)
      else
        (let cacheKey = getCacheKey this assets cfgs;
             cachedAssets = cache w cacheKey
         in (cachedAssets,
             w\<lparr>trace := trace w @ [CacheGet cacheKey]
                  @ (case cachedAssets of None \<Rightarrow> [] | Some c \<Rightarrow> List.map GetCode assets)\<rparr>)))"

text \<open>
  Modelled from the spec: \<open>InternalAsset.commit\<close> is not part of the sources at hand.
  Committing an asset writes its final bytes to the blob store under a hash of the bytes
  and the options hash, which is recorded as a call; it consumes the AST of the asset
  and sets the size in its statistics to the number of bytes written. The mark that
  the spec calls frozen is not part of the model: the writes to an asset in the sources
  at hand (the assignments of \<open>runTransformer\<close> and \<open>finalize\<close>, the setters of the mutable
  view) are unconditional.
\<close>

definition contentSize :: "Transformation \<Rightarrow> Blob \<Rightarrow> nat" where
  "contentSize this b =
     (case b of
        StringBlob s \<Rightarrow> length s
      | BufferBlob bytes \<Rightarrow> length bytes
      | StreamBlob path \<Rightarrow> streamSize this path)"

definition commit :: "Transformation \<Rightarrow> InternalAsset \<Rightarrow> InternalAsset" where
  "commit this asset = asset\<lparr>ast := None, statsSize := contentSize this (content asset)\<rparr>"

text \<open>
  \<open>writeToCache\<close>: the key is computed first, then every asset is committed, then the
  list is stored. The assets are committed in place, so the list that is stored, and
  that the caller goes on with, is the list of the committed assets.
\<close>

definition writeToCache ::
  "Transformation \<Rightarrow> World \<Rightarrow> InternalAsset list \<Rightarrow> ConfigMap \<Rightarrow> InternalAsset list \<times> World" where
  "writeToCache this w assets cfgs =
     (let cacheKey = getCacheKey this assets cfgs;
          committed = List.map (commit this) assets
      in (committed,
          w\<lparr>cache := (cache w)(cacheKey \<mapsto> committed),
            trace := trace w
              @ List.map (\<lambda>asset. Commit asset (md5FromOptions this (impactfulOptions this))) assets
              @ [CacheSet cacheKey committed]\<rparr>))"

definition loadPipeline :: "Transformation \<Rightarrow> FilePath \<Rightarrow> error + Pipeline" where
  "loadPipeline this path =
     (case resolveTransformers this path of
        Inl e \<Rightarrow> Inl e
      | Inr (names, plugins, cfgs) \<Rightarrow> newPipeline names plugins cfgs)"

text \<open>
  \<open>s.slice(0, end)\<close> of JavaScript: a negative \<open>end\<close> counts from the end of the string,
  and \<open>-0\<close> is \<open>0\<close>.
\<close>

definition slice0 :: "string \<Rightarrow> int \<Rightarrow> string" where
  "slice0 s e = (if e < 0 then take (nat (int (length s) + e)) s else take (nat e) s)"

definition nextFilePath :: "Transformation \<Rightarrow> FilePath \<Rightarrow> string \<Rightarrow> FilePath" where
  "nextFilePath this path nextType =
     slice0 path (- int (length (extname this path))) @ ''.'' @ nextType"

definition loadNextPipeline ::
  "Transformation \<Rightarrow> World \<Rightarrow> FilePath \<Rightarrow> string \<Rightarrow> Pipeline \<Rightarrow> error + Pipeline option \<times> World" where
  "loadNextPipeline this w path nextType currentPipeline =
     (case loadPipeline this (nextFilePath this path nextType) of
        Inl e \<Rightarrow> Inl e
      | Inr nextPipeline \<Rightarrow>
          Inr (if id' nextPipeline = id' currentPipeline then None else Some nextPipeline,
               w\<lparr>trace := trace w @ [LoadPipeline (nextFilePath this path nextType)]\<rparr>))"

text \<open>
  \<open>runPipeline\<close> calls itself on the assets that change type, and nothing bounds the
  depth of these calls, so the recursion is on a fuel; \<open>None\<close> is a run that the fuel does
  not suffice for. The function is given in three parts, in the order of the source,
  with the recursive call as the parameter \<open>recur\<close>.

  The assets are objects that the source changes in place, and two of these changes
  are seen later through another reference: \<open>commit\<close> changes the elements of \<open>assets\<close>
  before the loop hands them to the next pipelines, and the first stage of a next
  pipeline changes the element of \<open>assets\<close> that it is given, before \<open>postProcess\<close> is
  called with \<open>assets\<close>. So a run returns, next to its result, its initial asset as it
  leaves it, and the loop keeps the elements of \<open>assets\<close> up to date.
\<close>

type_synonym runResult = "(error + InternalAsset list \<times> InternalAsset \<times> World) option"

text \<open>
  \<open>Pipeline.transform\<close> works on the object it is given, in its first stage only: the
  later stages work on children. This is the initial asset as a run of
  \<open>Pipeline.transform\<close> that returns leaves it.
\<close>

definition initialAssetAfterTransform :: "Pipeline \<Rightarrow> event list \<Rightarrow> InternalAsset \<Rightarrow> InternalAsset" where
  "initialAssetAfterTransform this tr initialAsset =
     (case transformers this of
        [] \<Rightarrow> initialAsset
      | transformer # rest \<Rightarrow>
          (case plugin transformer of
             None \<Rightarrow> initialAsset
           | Some p \<Rightarrow>
               (case runTransformer this tr initialAsset p (config transformer) of
                  Inl e \<Rightarrow> initialAsset
                | Inr (results, asset', this', tr') \<Rightarrow> asset')))"

text \<open>The first cache lookup, and \<open>pipeline.transform\<close> with the cache write on a miss.\<close>

definition transformOrCached ::
  "Transformation \<Rightarrow> World \<Rightarrow> Pipeline \<Rightarrow> InternalAsset
     \<Rightarrow> error + InternalAsset list \<times> InternalAsset \<times> Pipeline \<times> World" where
  "transformOrCached this w pipeline initialAsset =
     (case readFromCache this w [initialAsset] (configs pipeline) of
        (Some initialCacheEntry, w1) \<Rightarrow> Inr (initialCacheEntry, initialAsset, pipeline, w1)
      | (None, w1) \<Rightarrow>
          (case Pipeline_transform pipeline (trace w1) initialAsset of
             Inl e \<Rightarrow> Inl e
           | Inr (assets, pipeline', tr) \<Rightarrow>
               (case writeToCache this (w1\<lparr>trace := tr\<rparr>) assets (configs pipeline') of
                  (committed, w2) \<Rightarrow>
                    Inr (committed,
                         initialAssetAfterTransform pipeline (trace w1) initialAsset,
                         pipeline', w2))))"

text \<open>
  The loop over the assets, which builds \<open>finalAssets\<close>. \<open>visited\<close> holds the elements
  of \<open>assets\<close> that the loop has been through, as it leaves them.
\<close>

fun dispatch ::
  "(Pipeline \<Rightarrow> InternalAsset \<Rightarrow> World \<Rightarrow> runResult) \<Rightarrow> Transformation \<Rightarrow> Pipeline \<Rightarrow> InternalAsset
     \<Rightarrow> string \<Rightarrow> InternalAsset list \<Rightarrow> InternalAsset list \<Rightarrow> InternalAsset list \<Rightarrow> World
     \<Rightarrow> (error + InternalAsset list \<times> InternalAsset list \<times> World) option" where
  "dispatch recur this pipeline initialAsset initialType [] visited finalAssets w =
     Some (Inr (finalAssets, visited, w))"
| "dispatch recur this pipeline initialAsset initialType (asset # rest) visited finalAssets w =
     (if type asset \<noteq> initialType then
        (case loadNextPipeline this w (filePath initialAsset) (type asset) pipeline of
           Inl e \<Rightarrow> Some (Inl e)
         | Inr (Some nextPipeline, w1) \<Rightarrow>
             (case recur nextPipeline asset w1 of
                None \<Rightarrow> None
              | Some (Inl e) \<Rightarrow> Some (Inl e)
              | Some (Inr (nextPipelineAssets, asset', w2)) \<Rightarrow>
                  dispatch recur this pipeline initialAsset initialType rest
                    (visited @ [asset']) (finalAssets @ nextPipelineAssets) w2)
         | Inr (None, w1) \<Rightarrow>
             dispatch recur this pipeline initialAsset initialType rest
               (visited @ [asset]) (finalAssets @ [asset]) w1)
      else dispatch recur this pipeline initialAsset initialType rest
             (visited @ [asset]) (finalAssets @ [asset]) w)"

text \<open>
  The end of \<open>runPipeline\<close>: the second cache lookup and \<open>postProcess\<close>, which is called
  with \<open>assets\<close>, the list from before the loop, with its elements as the loop left them.
\<close>

definition postProcessOrCached ::
  "Transformation \<Rightarrow> World \<Rightarrow> Pipeline \<Rightarrow> InternalAsset list \<Rightarrow> InternalAsset list
     \<Rightarrow> error + InternalAsset list \<times> World" where
  "postProcessOrCached this w pipeline assets finalAssets =
     (case postProcess pipeline of
        None \<Rightarrow> Inr (finalAssets, w)
      | Some pp \<Rightarrow>
          (case readFromCache this w finalAssets (configs pipeline) of
             (Some processedCacheEntry, w1) \<Rightarrow> Inr (processedCacheEntry, w1)
           | (None, w1) \<Rightarrow>
               (case callPostProcess pp assets of
                  Inl e \<Rightarrow> Inl e
                | Inr processed \<Rightarrow>
                    Inr (writeToCache this (w1\<lparr>trace := trace w1 @ [PostProcessCall assets]\<rparr>)
                           (case processed of None \<Rightarrow> [] | Some p \<Rightarrow> p) (configs pipeline)))))"

definition runPipelineBody ::
  "(Pipeline \<Rightarrow> InternalAsset \<Rightarrow> World \<Rightarrow> runResult) \<Rightarrow> Transformation \<Rightarrow> Pipeline \<Rightarrow> InternalAsset
     \<Rightarrow> World \<Rightarrow> runResult" where
  "runPipelineBody recur this pipeline initialAsset w =
     (case transformOrCached this w pipeline initialAsset of
        Inl e \<Rightarrow> Some (Inl e)
      | Inr (assets, initialAsset', pipeline', w1) \<Rightarrow>
          (case dispatch recur this pipeline' initialAsset (type initialAsset) assets [] [] w1 of
             None \<Rightarrow> None
           | Some (Inl e) \<Rightarrow> Some (Inl e)
           | Some (Inr (finalAssets, assets', w2)) \<Rightarrow>
               (case postProcessOrCached this w2 pipeline' assets' finalAssets of
                  Inl e \<Rightarrow> Some (Inl e)
                | Inr (processed, w3) \<Rightarrow> Some (Inr (processed, initialAsset', w3)))))"


section \<open>The mutable asset view\<close>

text \<open>
  The object that \<open>URL.parse\<close> returns: the path name, which may be \<open>null\<close>, and all the
  other components together.
\<close>

record UrlObject =
  pathname :: "string option"
  otherComponents :: string

text \<open>
  The collaborators of \<open>addURLDependency\<close>, parameters of the model: \<open>isURL\<close> of the
  utilities package (\<open>isURLString\<close> here, \<open>isURL\<close> being the option of a dependency),
  \<open>URL.parse\<close> and \<open>URL.format\<close> of the platform,
  \<open>decodeURIComponent\<close> (\<open>None\<close> when it throws a \<open>URIError\<close>), and the id that
  \<open>InternalAsset.addDependency\<close> gives to a dependency of an asset.
\<close>

record UrlLib =
  isURLString :: "string \<Rightarrow> bool"
  URL_parse :: "string \<Rightarrow> UrlObject"
  URL_format :: "UrlObject \<Rightarrow> string"
  decodeURIComponent :: "string \<Rightarrow> string option"
  dependencyId :: "InternalAsset \<Rightarrow> DependencyOptions \<Rightarrow> string"

text \<open>
  Modelled from the spec: \<open>InternalAsset.addDependency\<close> is not part of the sources at
  hand. The dependencies of an asset are an ordered sequence that transformers add to;
  the call returns the id of the dependency.
\<close>

definition addDependency :: "UrlLib \<Rightarrow> InternalAsset \<Rightarrow> DependencyOptions \<Rightarrow> string \<times> InternalAsset" where
  "addDependency lib asset dep =
     (dependencyId lib asset dep, asset\<lparr>dependencies := dependencies asset @ [dep]\<rparr>)"

text \<open>
  The object spread \<open>{...base, ...opts}\<close>: a property that \<open>opts\<close> has replaces the one of
  \<open>base\<close>.
\<close>

definition spread :: "DependencyOptions \<Rightarrow> DependencyOptions \<Rightarrow> DependencyOptions" where
  "spread base opts =
     \<lparr>moduleSpecifier = (case moduleSpecifier opts of None \<Rightarrow> moduleSpecifier base | Some v \<Rightarrow> Some v),
      isURL = (case isURL opts of None \<Rightarrow> isURL base | Some v \<Rightarrow> Some v),
      isAsync = (case isAsync opts of None \<Rightarrow> isAsync base | Some v \<Rightarrow> Some v),
      isEntry = (case isEntry opts of None \<Rightarrow> isEntry base | Some v \<Rightarrow> Some v),
      isOptional = (case isOptional opts of None \<Rightarrow> isOptional base | Some v \<Rightarrow> Some v)\<rparr>"

text \<open>\<open>MutableAsset.addURLDependency\<close>, on the asset behind the view.\<close>

definition addURLDependency ::
  "UrlLib \<Rightarrow> InternalAsset \<Rightarrow> string \<Rightarrow> DependencyOptions \<Rightarrow> error + string \<times> InternalAsset" where
  "addURLDependency lib asset url opts =
     (if isURLString lib url then Inr (url, asset)
      else
        (let parsed = URL_parse lib url in
         case pathname parsed of
           None \<Rightarrow> Inr (url, asset)
         | Some p \<Rightarrow>
             (case decodeURIComponent lib p of
                None \<Rightarrow> Inl URIError
              | Some specifier \<Rightarrow>
                  (let added = addDependency lib asset
                         (spread \<lparr>moduleSpecifier = Some specifier, isURL = Some True,
                                  isAsync = Some True, isEntry = None, isOptional = None\<rparr> opts)
                   in Inr (URL_format lib (parsed\<lparr>pathname := Some (fst added)\<rparr>), snd added)))))"

section \<open>Example inputs\<close>

text \<open>The concrete inputs on which the model is evaluated below.\<close>

definition exHashing :: Hashing where
  "exHashing = \<lparr>md5Bytes = (\<lambda>bs. ''md5''), md5FromString = (\<lambda>s. ''md5'')\<rparr>"

definition exRequest :: AssetRequest where
  "exRequest =
     \<lparr>AssetRequest.filePath = ''big.bin'', AssetRequest.code = None,
      AssetRequest.env = ''browser'', AssetRequest.sideEffects = None\<rparr>"

definition exBigFS :: FileSystem where
  "exBigFS p = (if p = ''big.bin'' then Some [replicate 5000001 0] else None)"

definition exSmallFS :: FileSystem where
  "exSmallFS p = (if p = ''big.bin'' then Some [[1, 2], [3]] else None)"

definition exAST :: AST where
  "exAST = \<lparr>astType = ''babel'', version = ''7.0.0'', program = ''T''\<rparr>"

definition exFreshAST :: AST where
  "exFreshAST = \<lparr>astType = ''postcss'', version = ''1.0.0'', program = ''U''\<rparr>"

definition exAsset :: InternalAsset where
  "exAsset =
     \<lparr>filePath = ''a.ts'', type = ''ts'', content = StringBlob ''source'', ast = None,
      sourceMap = None, hash = ''h0'', env = ''browser'', statsSize = 6, sideEffects = None,
      isIsolated = False, meta = [], dependencies = [], connectedFiles = []\<rparr>"

definition exAssetWithAST :: InternalAsset where
  "exAssetWithAST = exAsset\<lparr>ast := Some exAST\<rparr>"

text \<open>
  A stage in the manner of the Babel transformer: it reuses an AST of its own dialect,
  parses otherwise, returns the asset it was given, and provides \<open>generate\<close>.
\<close>

definition exBabel :: Transformer where
  "exBabel =
     \<lparr>getConfig = None,
      canReuseAST = Some (\<lambda>a. astType a = ''babel''),
      parse = Some (\<lambda>asset cfg. Inr (Some exAST, asset)),
      transform = (\<lambda>asset cfg. Inr ([View asset], asset)),
      generate = Some (\<lambda>asset cfg. Inr (\<lparr>code = ''generated'', map' = None\<rparr>, asset)),
      postProcess = None\<rparr>"

text \<open>A stage of another dialect: it reuses no AST and parses the code again.\<close>

definition exReparse :: Transformer where
  "exReparse =
     \<lparr>getConfig = None,
      canReuseAST = Some (\<lambda>a. False),
      parse = Some (\<lambda>asset cfg. Inr (Some exFreshAST, asset)),
      transform = (\<lambda>asset cfg. Inr ([View asset], asset)),
      generate = Some (\<lambda>asset cfg. Inr (\<lparr>code = ''regenerated'', map' = None\<rparr>, asset)),
      postProcess = None\<rparr>"

text \<open>
  A stage that declares \<open>transform\<close> only, and returns one descriptor of the type of the
  asset, without an AST.
\<close>

definition exPlain :: Transformer where
  "exPlain =
     \<lparr>getConfig = None,
      canReuseAST = None,
      parse = None,
      transform = (\<lambda>asset cfg.
         Inr ([Result \<lparr>TransformerResult.type = type asset, content = StringBlob ''plain'',
                        ast = None, sourceMap = None, dependencies = [], connectedFiles = [],
                        env = None, isIsolated = None, meta = None\<rparr>], asset)),
      generate = None,
      postProcess = None\<rparr>"

definition exEmptyPipeline :: Pipeline where
  "exEmptyPipeline =
     \<lparr>id' = ''babel'', transformers = [], configs = [], generate = None, postProcess = None\<rparr>"

text \<open>The pipeline after the Babel stage has run: its generate closure is remembered.\<close>

definition exAfterBabel :: Pipeline where
  "exAfterBabel = exEmptyPipeline\<lparr>generate := Some \<lparr>genTransformer = exBabel, genConfig = None\<rparr>\<rparr>"

text \<open>
  A stage for TypeScript sources: it parses, sets the type of the asset to \<open>js\<close>, returns
  the asset, and provides \<open>generate\<close>.
\<close>

definition exTypeScript :: Transformer where
  "exTypeScript =
     \<lparr>getConfig = None,
      canReuseAST = Some (\<lambda>a. astType a = ''babel''),
      parse = Some (\<lambda>asset cfg. Inr (Some exAST, asset)),
      transform = (\<lambda>asset cfg. Inr ([View (asset\<lparr>type := ''js''\<rparr>)], asset\<lparr>type := ''js''\<rparr>)),
      generate = Some (\<lambda>asset cfg. Inr (\<lparr>code = ''generated'', map' = None\<rparr>, asset)),
      postProcess = None\<rparr>"

definition exConfigs :: ConfigMap where
  "exConfigs =
     [(''parcel'', \<lparr>result = Some ''parcelrc'', resultHash = ''ts'',
                   devDeps = [(''typescript'', None)]\<rparr>)]"

definition exPlainConfigs :: ConfigMap where
  "exPlainConfigs =
     [(''parcel'', \<lparr>result = Some ''parcelrc'', resultHash = ''pl'',
                   devDeps = [(''plain'', None)]\<rparr>)]"

text \<open>\<open>path.extname\<close> on plain file names: from the last dot on, or empty without a dot.\<close>

definition exExtname :: "FilePath \<Rightarrow> string" where
  "exExtname p =
     (if CHR ''.'' \<in> set p then CHR ''.'' # rev (takeWhile (\<lambda>c. c \<noteq> CHR ''.'') (rev p)) else [])"

text \<open>A stand-in for \<open>md5FromObject\<close> that tells apart the cache keys used below.\<close>

definition exMd5FromObject :: "CacheKeyInfo \<Rightarrow> string" where
  "exMd5FromObject k =
     concat (List.map (\<lambda>(p, h, t). p @ '':'' @ h @ '':'' @ t @ '';'') (keyAssets k))
       @ concat (List.map fst (keyConfigs k))"

text \<open>The host resolves \<open>.ts\<close> paths to the TypeScript stage and all others to the plain one.\<close>

definition exResolve :: "FilePath \<Rightarrow> error + PackageName list \<times> Transformer list \<times> ConfigMap" where
  "exResolve p =
     (if exExtname p = ''.ts'' then Inr ([''typescript''], [exTypeScript], exConfigs)
      else Inr ([''plain''], [exPlain], exPlainConfigs))"

definition exTransformation :: Transformation where
  "exTransformation =
     \<lparr>request = \<lparr>AssetRequest.filePath = ''a.ts'', AssetRequest.code = None,
                 AssetRequest.env = ''browser'', AssetRequest.sideEffects = None\<rparr>,
      cacheOption = True,
      impactfulOptions = \<lparr>minify = False, hot = False, scopeHoist = False\<rparr>,
      md5FromObject = exMd5FromObject,
      md5FromOptions = (\<lambda>opts. ''options''),
      extname = exExtname,
      streamSize = (\<lambda>path. 0),
      resolveTransformers = exResolve\<rparr>"

definition exWorld :: World where
  "exWorld = \<lparr>cache = Map.empty, trace = []\<rparr>"

definition exTsPipeline :: Pipeline where
  "exTsPipeline =
     \<lparr>id' = ''typescript'',
      transformers = [\<lparr>name = ''typescript'', plugin = Some exTypeScript, config = None\<rparr>],
      configs = exConfigs, generate = None, postProcess = None\<rparr>"

text \<open>The pipeline after the plain stage has run: the closure of a stage without \<open>generate\<close>.\<close>

definition exAfterPlain :: Pipeline where
  "exAfterPlain = exEmptyPipeline\<lparr>generate := Some \<lparr>genTransformer = exPlain, genConfig = None\<rparr>\<rparr>"

text \<open>A stage that splits an asset into a part of the same type and a style sheet.\<close>

definition exSplit :: Transformer where
  "exSplit =
     \<lparr>getConfig = None,
      canReuseAST = None,
      parse = None,
      transform = (\<lambda>asset cfg.
         Inr ([Result \<lparr>TransformerResult.type = type asset, content = StringBlob ''script'',
                        ast = None, sourceMap = None, dependencies = [], connectedFiles = [],
                        env = None, isIsolated = None, meta = None\<rparr>,
               Result \<lparr>TransformerResult.type = ''css'', content = StringBlob ''style'',
                        ast = None, sourceMap = None, dependencies = [], connectedFiles = [],
                        env = None, isIsolated = None, meta = None\<rparr>], asset)),
      generate = None,
      postProcess = None\<rparr>"

text \<open>A stage whose \<open>transform\<close> returns no result at all.\<close>

definition exDrop :: Transformer where
  "exDrop =
     \<lparr>getConfig = None,
      canReuseAST = None,
      parse = None,
      transform = (\<lambda>asset cfg. Inr ([], asset)),
      generate = None,
      postProcess = None\<rparr>"

definition exDropStage :: TransformerWithNameAndConfig where
  "exDropStage = \<lparr>name = ''drop'', plugin = Some exDrop, config = None\<rparr>"

definition exSplitDropPlain :: Pipeline where
  "exSplitDropPlain =
     \<lparr>id' = ''split:drop:plain'',
      transformers = [\<lparr>name = ''split'', plugin = Some exSplit, config = None\<rparr>,
                      exDropStage,
                      \<lparr>name = ''plain'', plugin = Some exPlain, config = None\<rparr>],
      configs = exConfigs, generate = None, postProcess = None\<rparr>"

definition exStyle :: InternalAsset where
  "exStyle = exAsset\<lparr>type := ''css'', content := StringBlob ''style''\<rparr>"

definition exScript :: InternalAsset where
  "exScript = exAsset\<lparr>content := StringBlob ''script''\<rparr>"

text \<open>A world in which the cache answers the first lookup for \<open>exAsset\<close>.\<close>

definition exWarmWorld :: World where
  "exWarmWorld = \<lparr>cache = [''a.ts:h0:ts;ts'' \<mapsto> [exStyle]], trace = []\<rparr>"

text \<open>
  A stage like the TypeScript one that also declares \<open>postProcess\<close>, which returns one
  descriptor of type \<open>bundle\<close>, and a stage that parses the asset it is given and turns
  it into one of type \<open>min\<close>.
\<close>

definition exBundleResult :: TransformerResult where
  "exBundleResult =
     \<lparr>TransformerResult.type = ''bundle'', content = StringBlob ''bundled'', ast = None,
      sourceMap = None, dependencies = [], connectedFiles = [], env = None, isIsolated = None,
      meta = None\<rparr>"

definition exBundler :: Transformer where
  "exBundler = exTypeScript\<lparr>Transformer.postProcess := Some (\<lambda>assets cfg. Inr (Some [exBundleResult]))\<rparr>"

definition exMinify :: Transformer where
  "exMinify =
     \<lparr>getConfig = None,
      canReuseAST = None,
      parse = Some (\<lambda>asset cfg. Inr (Some exFreshAST, asset)),
      transform = (\<lambda>asset cfg.
         Inr ([Result \<lparr>TransformerResult.type = ''min'', content = StringBlob ''minified'',
                        ast = None, sourceMap = None, dependencies = [], connectedFiles = [],
                        env = None, isIsolated = None, meta = None\<rparr>], asset)),
      generate = None,
      postProcess = None\<rparr>"

definition exBundlerResolve :: "FilePath \<Rightarrow> error + PackageName list \<times> Transformer list \<times> ConfigMap" where
  "exBundlerResolve p =
     (if exExtname p = ''.ts'' then Inr ([''bundler''], [exBundler], exConfigs)
      else Inr ([''minify''], [exMinify], exPlainConfigs))"

definition exBundlerTransformation :: Transformation where
  "exBundlerTransformation = exTransformation\<lparr>resolveTransformers := exBundlerResolve\<rparr>"

definition exBundlerPipeline :: Pipeline where
  "exBundlerPipeline =
     \<lparr>id' = ''bundler'',
      transformers = [\<lparr>name = ''bundler'', plugin = Some exBundler, config = None\<rparr>],
      configs = exConfigs, generate = None, postProcess = None\<rparr>"

definition exGenerated :: InternalAsset where
  "exGenerated = exAsset\<lparr>type := ''js'', content := StringBlob ''generated'', ast := Some exAST\<rparr>"

definition exMinified :: InternalAsset where
  "exMinified = exAsset\<lparr>type := ''min'', content := StringBlob ''minified''\<rparr>"

definition exBundled :: InternalAsset where
  "exBundled = exAsset\<lparr>type := ''bundle'', content := StringBlob ''bundled''\<rparr>"

text \<open>The same assets after \<open>commit\<close>: without an AST, and with the size of their content.\<close>

definition exCommitted :: InternalAsset where
  "exCommitted = exGenerated\<lparr>ast := None, statsSize := 9\<rparr>"


definition exBundledCommitted :: InternalAsset where
  "exBundledCommitted = exBundled\<lparr>statsSize := 7\<rparr>"

definition isCacheEvent :: "event \<Rightarrow> bool" where
  "isCacheEvent e = (case e of CacheGet k \<Rightarrow> True | CacheSet k assets \<Rightarrow> True | _ \<Rightarrow> False)"

text \<open>The same transformation with the cache switched off.\<close>

definition exNoCache :: Transformation where
  "exNoCache = exBundlerTransformation\<lparr>cacheOption := False\<rparr>"

text \<open>The postProcess closure that the bundler stage leaves on its pipeline.\<close>

definition exBundlerClosure :: PostProcessFunc where
  "exBundlerClosure =
     \<lparr>ppHook = (\<lambda>assets cfg. Inr (Some [exBundleResult])), ppConfig = None,
      ppAsset = exAsset\<lparr>type := ''js'', ast := Some exAST\<rparr>\<rparr>"

definition exAfterBundler :: Pipeline where
  "exAfterBundler =
     exBundlerPipeline\<lparr>generate := Some \<lparr>genTransformer = exBundler, genConfig = None\<rparr>,
                       postProcess := Some exBundlerClosure\<rparr>"


text \<open>An asset without a file extension, and what a stage makes of it.\<close>

definition exMakefile :: InternalAsset where
  "exMakefile = exAsset\<lparr>filePath := ''src/Makefile'', type := []\<rparr>"

text \<open>
  Stand-ins for the URL functions, for relative paths without query or fragment: a URL is
  absolute when it starts with \<open>http:\<close>, the path name of a relative one is the whole
  string, and a path name with a percent sign does not decode.
\<close>

definition exUrlLib :: UrlLib where
  "exUrlLib =
     \<lparr>isURLString = (\<lambda>u. take 5 u = ''http:''),
      URL_parse = (\<lambda>u. \<lparr>pathname = (if u = [] then None else Some u), otherComponents = []\<rparr>),
      URL_format = (\<lambda>u. (case pathname u of None \<Rightarrow> [] | Some p \<Rightarrow> p) @ otherComponents u),
      decodeURIComponent = (\<lambda>s. if CHR ''%'' \<in> set s then None else Some s),
      dependencyId = (\<lambda>asset dep.
         ''dep:'' @ (case moduleSpecifier dep of None \<Rightarrow> [] | Some m \<Rightarrow> m))\<rparr>"

definition exNoOpts :: DependencyOptions where
  "exNoOpts =
     \<lparr>moduleSpecifier = None, isURL = None, isAsync = None, isEntry = None, isOptional = None\<rparr>"

definition exNotURLOpts :: DependencyOptions where
  "exNotURLOpts = exNoOpts\<lparr>isURL := Some False\<rparr>"

text \<open>Two pipelines of two stages: Babel twice, and Babel before a stage of another dialect.\<close>

definition exBabelBabel :: Pipeline where
  "exBabelBabel =
     exEmptyPipeline\<lparr>transformers :=
       [\<lparr>name = ''babel'', plugin = Some exBabel, config = None\<rparr>,
        \<lparr>name = ''babel-plugins'', plugin = Some exBabel, config = None\<rparr>]\<rparr>"

definition exBabelReparse :: Pipeline where
  "exBabelReparse =
     exEmptyPipeline\<lparr>transformers :=
       [\<lparr>name = ''babel'', plugin = Some exBabel, config = None\<rparr>,
        \<lparr>name = ''reparse'', plugin = Some exReparse, config = None\<rparr>]\<rparr>"

text \<open>
  A pipeline of two stages whose first stage fans out. The first stage returns two
  descriptors of the type of the asset, each with an AST, and provides \<open>generate\<close>; the
  second stage reuses no AST, parses, and provides a \<open>generate\<close> of its own.
\<close>

definition exFanOutStage :: Transformer where
  "exFanOutStage =
     \<lparr>getConfig = None,
      canReuseAST = None,
      parse = None,
      transform = (\<lambda>asset cfg.
         Inr ([Result \<lparr>TransformerResult.type = type asset, content = StringBlob ''left'',
                        ast = Some exAST, sourceMap = None, dependencies = [],
                        connectedFiles = [], env = None, isIsolated = None, meta = None\<rparr>,
               Result \<lparr>TransformerResult.type = type asset, content = StringBlob ''right'',
                        ast = Some exAST, sourceMap = None, dependencies = [],
                        connectedFiles = [], env = None, isIsolated = None, meta = None\<rparr>], asset)),
      generate = Some (\<lambda>asset cfg. Inr (\<lparr>code = ''generated-by-stage-1'', map' = None\<rparr>, asset)),
      postProcess = None\<rparr>"

definition exSecondStage :: Transformer where
  "exSecondStage =
     \<lparr>getConfig = None,
      canReuseAST = Some (\<lambda>a. False),
      parse = Some (\<lambda>asset cfg. Inr (Some exFreshAST, asset)),
      transform = (\<lambda>asset cfg. Inr ([View asset], asset)),
      generate = Some (\<lambda>asset cfg. Inr (\<lparr>code = ''generated-by-stage-2'', map' = None\<rparr>, asset)),
      postProcess = None\<rparr>"

definition exFanOut :: Pipeline where
  "exFanOut =
     exEmptyPipeline\<lparr>transformers :=
       [\<lparr>name = ''fan-out'', plugin = Some exFanOutStage, config = None\<rparr>,
        \<lparr>name = ''second'', plugin = Some exSecondStage, config = None\<rparr>]\<rparr>"

definition exLeft :: InternalAsset where
  "exLeft = exAsset\<lparr>content := StringBlob ''left'', ast := Some exAST\<rparr>"

definition exRight :: InternalAsset where
  "exRight = exAsset\<lparr>content := StringBlob ''right'', ast := Some exAST\<rparr>"











section \<open>Properties of the content source\<close>

lemma foldl_tap_size:
  "snd (foldl (tap p) (c, n) chunks) = n + length (concat chunks)"
proof (induction chunks arbitrary: c n)
  case Nil
  show ?case by simp
next
  case (Cons x xs)
  obtain c' n' where step: "tap p (c, n) x = (c', n')" by (cases "tap p (c, n) x")
  have n': "n' = n + length x"
    using step by (auto simp: tap_def Let_def split: Blob.splits if_splits)
  show ?case using Cons.IH [of c' n'] by (simp add: step n')
qed

lemma foldl_tap_not_buffer:
  "\<forall>b. c \<noteq> BufferBlob b \<Longrightarrow> fst (foldl (tap p) (c, n) chunks) = c"
proof (induction chunks arbitrary: n)
  case Nil
  show ?case by simp
next
  case (Cons x xs)
  have "tap p (c, n) x = (c, n + length x)"
    using Cons.prems by (cases c) (simp_all add: tap_def Let_def)
  then show ?case using Cons by simp
qed

lemma foldl_tap_content:
  "length b \<le> BUFFER_LIMIT \<Longrightarrow>
   fst (foldl (tap p) (BufferBlob b, length b) chunks) =
     (if length b + length (concat chunks) \<le> BUFFER_LIMIT
      then BufferBlob (b @ concat chunks) else StreamBlob p)"
proof (induction chunks arbitrary: b)
  case Nil
  then show ?case by simp
next
  case (Cons x xs)
  show ?case
  proof (cases "length b + length x > BUFFER_LIMIT")
    case True
    then have "tap p (BufferBlob b, length b) x = (StreamBlob p, length b + length x)"
      by (simp add: tap_def Let_def)
    then show ?thesis using True by (simp add: foldl_tap_not_buffer)
  next
    case False
    then have step: "tap p (BufferBlob b, length b) x = (BufferBlob (b @ x), length (b @ x))"
      by (simp add: tap_def Let_def)
    have le: "length (b @ x) \<le> BUFFER_LIMIT" using False by simp
    show ?thesis using Cons.IH [OF le] by (simp add: step add.assoc)
  qed
qed

text \<open>
  The running size exceeds the limit at some chunk exactly when the size of the whole
  file does: the sizes only grow.
\<close>

lemma running_size_never_exceeds:
  "(\<forall>k \<le> length chunks. length (concat (take k chunks)) \<le> n) \<longleftrightarrow> length (concat chunks) \<le> n"
proof
  assume "\<forall>k \<le> length chunks. length (concat (take k chunks)) \<le> n"
  then have "length (concat (take (length chunks) chunks)) \<le> n" by blast
  then show "length (concat chunks) \<le> n" by simp
next
  assume total: "length (concat chunks) \<le> n"
  show "\<forall>k \<le> length chunks. length (concat (take k chunks)) \<le> n"
  proof (intro allI impI)
    fix k
    have "length (concat chunks) = length (concat (take k chunks)) + length (concat (drop k chunks))"
      by (metis append_take_drop_id concat_append length_append)
    then show "length (concat (take k chunks)) \<le> n" using total by linarith
  qed
qed

text \<open>
  C3, as stated, with the threshold at 5 MiB: a file of 5000001 bytes stays within
  5 MiB, and yet \<open>summarizeRequest\<close> hands its content over as a stream.
\<close>

theorem summarizeRequest_5MiB_counterexample:
  "length (concat [replicate 5000001 (0::byte)]) \<le> 5 * 1024 * 1024
   \<and> AssetRequest.code exRequest = None
   \<and> exBigFS (AssetRequest.filePath exRequest) = Some [replicate 5000001 0]
   \<and> map_sum id Summary.content (summarizeRequest exHashing exBigFS exRequest)
       = Inr (StreamBlob ''big.bin'')"
  by (simp add: summarizeRequest_def exHashing_def exBigFS_def exRequest_def TapStream_def
      tap_def BUFFER_LIMIT_def md5FromReadableStream_def Let_def)

text \<open>
  C3, amended: the threshold is \<open>BUFFER_LIMIT\<close>, 5000000 bytes. For a request that names
  a readable file and carries no inline code, the content is the buffer of all the bytes
  of the file exactly when the size of the file is at most 5000000 bytes (which is when
  the running size never exceeds it, by \<open>running_size_never_exceeds\<close>), and it is a
  stream over the path of the request otherwise.
\<close>

theorem summarizeRequest_content:
  assumes "AssetRequest.code req = None"
      and "fs (AssetRequest.filePath req) = Some chunks"
  shows "BUFFER_LIMIT = 5000000
         \<and> map_sum id Summary.content (summarizeRequest h fs req)
             = Inr (if length (concat chunks) \<le> BUFFER_LIMIT
                    then BufferBlob (concat chunks)
                    else StreamBlob (AssetRequest.filePath req))"
proof -
  have "fst (foldl (tap (AssetRequest.filePath req)) (BufferBlob [], length ([] :: byte list)) chunks)
          = (if length ([] :: byte list) + length (concat chunks) \<le> BUFFER_LIMIT
             then BufferBlob ([] @ concat chunks) else StreamBlob (AssetRequest.filePath req))"
    by (rule foldl_tap_content) simp
  then show ?thesis
    using assms by (simp add: summarizeRequest_def TapStream_def Let_def BUFFER_LIMIT_def)
qed

theorem summarizeRequest_content_witness:
  "AssetRequest.code exRequest = None
   \<and> exSmallFS (AssetRequest.filePath exRequest) = Some [[1, 2], [3]]
   \<and> map_sum id Summary.content (summarizeRequest exHashing exSmallFS exRequest)
       = Inr (BufferBlob [1, 2, 3])"
proof -
  have h1: "AssetRequest.code exRequest = None" by (simp add: exRequest_def)
  have h2: "exSmallFS (AssetRequest.filePath exRequest) = Some [[1, 2], [3]]"
    by (simp add: exRequest_def exSmallFS_def)
  show ?thesis
    using summarizeRequest_content
      [where req = exRequest and fs = exSmallFS and chunks = "[[1, 2], [3]]" and h = exHashing,
       OF h1 h2] h1 h2
    by (simp add: BUFFER_LIMIT_def)
qed

text \<open>
  C4: for a request that names a readable file, the hash is the md5 of all the bytes of
  the file and the size is their number, whatever the chunks the file is read in and on
  whichever side of the buffering threshold it is.
\<close>

theorem summarizeRequest_hash_size:
  assumes "AssetRequest.code req = None"
      and "fs (AssetRequest.filePath req) = Some chunks"
  shows "map_sum id (\<lambda>s. (Summary.hash s, Summary.size s)) (summarizeRequest h fs req)
           = Inr (md5Bytes h (concat chunks), length (concat chunks))"
  using assms foldl_tap_size [of "AssetRequest.filePath req" "BufferBlob []" 0 chunks]
  by (simp add: summarizeRequest_def TapStream_def md5FromReadableStream_def Let_def)

theorem summarizeRequest_hash_size_witness:
  "AssetRequest.code exRequest = None
   \<and> exBigFS (AssetRequest.filePath exRequest) = Some [replicate 5000001 0]
   \<and> map_sum id (\<lambda>s. (Summary.hash s, Summary.size s)) (summarizeRequest exHashing exBigFS exRequest)
       = Inr (md5Bytes exHashing (replicate 5000001 0), 5000001)"
proof -
  have h1: "AssetRequest.code exRequest = None" by (simp add: exRequest_def)
  have h2: "exBigFS (AssetRequest.filePath exRequest) = Some [replicate 5000001 0]"
    by (simp add: exRequest_def exBigFS_def)
  show ?thesis
    using summarizeRequest_hash_size
      [where req = exRequest and fs = exBigFS and chunks = "[replicate 5000001 0]"
         and h = exHashing, OF h1 h2] h1 h2
    by simp
qed

section \<open>Properties of the pipeline\<close>

lemmas stepdefs =
  runTransformer_def loadConfigStep_def regenerateStep_def parseStep_def transformStep_def
  cannotReuse_def callGenerate_def normalizeAssets_def

lemmas driverdefs =
  runPipelineBody_def transformOrCached_def postProcessOrCached_def readFromCache_def
  writeToCache_def getCacheKey_def loadNextPipeline_def loadPipeline_def nextFilePath_def
  slice0_def newPipeline_def nth_opt_def Pipeline_transform_def finalize_def
  createChildAsset_def callPostProcess_def initialAssetAfterTransform_def commit_def
  contentSize_def

text \<open>
  How an AST gets from one stage to the next: the child made from a result descriptor
  carries the AST of the descriptor, and a view that a stage returns becomes a child equal
  to the asset behind it. After a stage has run, the generate closure remembered on the
  pipeline is the one of that stage, with the config the stage ran with.
\<close>

lemma createChildAsset_ast: "ast (createChildAsset parent r) = TransformerResult.ast r"
  by (simp add: createChildAsset_def)

lemma createChildAsset_view:
  "List.map (createChildAsset asset) (normalizeAssets [View asset]) = [asset]"
  by (simp add: createChildAsset_def normalizeAssets_def)

lemma runTransformer_remembers_generate:
  assumes "loadConfigStep t preloadedConfig asset tr = Inr (cfg, asset1, tr1)"
      and "runTransformer this tr asset t preloadedConfig = Inr (results, asset', this', tr')"
  shows "generate this' = Some \<lparr>genTransformer = t, genConfig = cfg\<rparr>"
  using assms
  by (auto simp: runTransformer_def transformStep_def split: sum.splits prod.splits)

text \<open>
  What a run of a stage that returns does about an AST that it finds on the asset.
  \<open>asset1\<close> is the asset as the stage finds it (after its own \<open>getConfig\<close> hook, if it
  declares one), \<open>a\<close> the AST on it, \<open>tr1\<close> the record of the calls made so far. If the
  stage can reuse \<open>a\<close>, the only call added is its \<open>transform\<close>, on \<open>asset1\<close>. If it
  cannot, and a generate closure is remembered, the closure is called once, on \<open>asset1\<close>;
  \<open>parse\<close>, if the stage declares it, is called on the asset with the emitted code and
  without an AST, and \<open>transform\<close> on the asset with the AST that \<open>parse\<close> returned.
\<close>

lemma runTransformer_reconciles_ast:
  assumes cfg: "loadConfigStep t preloadedConfig asset tr = Inr (cfg, asset1, tr1)"
      and ast: "ast asset1 = Some a"
      and run: "runTransformer this tr asset t preloadedConfig = Inr (results, asset', this', tr')"
  shows "(\<forall>f. canReuseAST t = Some f \<and> f a \<longrightarrow> tr' = tr1 @ [TransformCall asset1])
       \<and> (\<forall>g. (canReuseAST t = None \<or> (\<exists>f. canReuseAST t = Some f \<and> \<not> f a)) \<and> generate this = Some g \<longrightarrow>
            (\<exists>out asset2.
               callGenerate g asset1 = Inr (out, asset2)
               \<and> (case parse t of
                    None \<Rightarrow>
                      tr' = tr1 @ [GenerateCall asset1,
                                   TransformCall (asset2\<lparr>content := StringBlob (code out), ast := None\<rparr>)]
                  | Some p \<Rightarrow>
                      (\<exists>fresh asset3.
                         p (asset2\<lparr>content := StringBlob (code out), ast := None\<rparr>) cfg = Inr (fresh, asset3)
                         \<and> tr' = tr1 @ [GenerateCall asset1,
                                        ParseCall (asset2\<lparr>content := StringBlob (code out), ast := None\<rparr>),
                                        TransformCall (asset3\<lparr>ast := fresh\<rparr>)]))))"
proof (intro conjI allI impI)
  fix f
  assume reuse: "canReuseAST t = Some f \<and> f a"
  then have "regenerateStep this t asset1 tr1 = Inr (asset1, tr1)"
    using ast by (simp add: regenerateStep_def cannotReuse_def)
  moreover have "parseStep t cfg asset1 tr1 = Inr (asset1, tr1)"
    using ast by (simp add: parseStep_def)
  ultimately have "transformStep this t cfg asset1 tr1 = Inr (results, asset', this', tr')"
    using run cfg by (simp add: runTransformer_def)
  then show "tr' = tr1 @ [TransformCall asset1]"
    by (auto simp: transformStep_def split: sum.splits)
next
  fix g
  assume h: "(canReuseAST t = None \<or> (\<exists>f. canReuseAST t = Some f \<and> \<not> f a)) \<and> generate this = Some g"
  then have cr: "cannotReuse t a" by (auto simp: cannotReuse_def)
  have regen: "regenerateStep this t asset1 tr1 =
        (case callGenerate g asset1 of Inl e \<Rightarrow> Inl e
         | Inr (out, asset2) \<Rightarrow>
             Inr (asset2\<lparr>content := StringBlob (code out), ast := None\<rparr>, tr1 @ [GenerateCall asset1]))"
    using ast cr h by (simp add: regenerateStep_def)
  from run cfg obtain asset2' tr2 where
    r2: "regenerateStep this t asset1 tr1 = Inr (asset2', tr2)"
    by (auto simp: runTransformer_def split: sum.splits)
  with regen obtain out asset2 where
    gen: "callGenerate g asset1 = Inr (out, asset2)"
    and a2: "asset2' = asset2\<lparr>content := StringBlob (code out), ast := None\<rparr>"
    and t2: "tr2 = tr1 @ [GenerateCall asset1]"
    by (auto split: sum.splits)
  let ?regenerated = "asset2\<lparr>content := StringBlob (code out), ast := None\<rparr>"
  from run cfg r2 a2 t2 obtain asset3' tr3 where
    p3: "parseStep t cfg ?regenerated (tr1 @ [GenerateCall asset1]) = Inr (asset3', tr3)"
    and tstep: "transformStep this t cfg asset3' tr3 = Inr (results, asset', this', tr')"
    by (auto simp: runTransformer_def split: sum.splits)
  have tr': "tr' = tr3 @ [TransformCall asset3']"
    using tstep by (auto simp: transformStep_def split: sum.splits)
  have "case parse t of
          None \<Rightarrow> tr' = tr1 @ [GenerateCall asset1, TransformCall ?regenerated]
        | Some p \<Rightarrow>
            (\<exists>fresh asset3.
               p ?regenerated cfg = Inr (fresh, asset3)
               \<and> tr' = tr1 @ [GenerateCall asset1, ParseCall ?regenerated,
                              TransformCall (asset3\<lparr>ast := fresh\<rparr>)])"
  proof (cases "parse t")
    case None
    then show ?thesis using p3 tr' by (simp add: parseStep_def)
  next
    case (Some p)
    then show ?thesis using p3 tr' by (auto simp: parseStep_def split: sum.splits)
  qed
  with gen show "\<exists>out asset2.
       callGenerate g asset1 = Inr (out, asset2)
       \<and> (case parse t of
            None \<Rightarrow>
              tr' = tr1 @ [GenerateCall asset1,
                           TransformCall (asset2\<lparr>content := StringBlob (code out), ast := None\<rparr>)]
          | Some p \<Rightarrow>
              (\<exists>fresh asset3.
                 p (asset2\<lparr>content := StringBlob (code out), ast := None\<rparr>) cfg = Inr (fresh, asset3)
                 \<and> tr' = tr1 @ [GenerateCall asset1,
                                ParseCall (asset2\<lparr>content := StringBlob (code out), ast := None\<rparr>),
                                TransformCall (asset3\<lparr>ast := fresh\<rparr>)]))"
    by blast
qed

text \<open>
  For the stage that runs right after another stage has run, the remembered closure is
  the one of that stage: the code is emitted by the \<open>generate\<close> hook of the stage
  before, called with the config that stage ran with.
\<close>

lemma regenerated_by_the_stage_that_ran_last:
  assumes prev_cfg: "loadConfigStep tPrev prePrev parent tr0 = Inr (cfgPrev, parent1, trp)"
      and prev: "runTransformer this0 tr0 parent tPrev prePrev = Inr (resultsPrev, parent', this1, tr1)"
      and cfg: "loadConfigStep t preloadedConfig asset tr1 = Inr (cfg, asset1, tr1')"
      and ast: "ast asset1 = Some a"
      and noreuse: "canReuseAST t = None \<or> (\<exists>f. canReuseAST t = Some f \<and> \<not> f a)"
      and run: "runTransformer this1 tr1 asset t preloadedConfig = Inr (results, asset', this2, tr2)"
  shows "\<exists>gen out asset2.
           Transformer.generate tPrev = Some gen
           \<and> gen asset1 cfgPrev = Inr (out, asset2)
           \<and> (case parse t of
                None \<Rightarrow>
                  tr2 = tr1' @ [GenerateCall asset1,
                               TransformCall (asset2\<lparr>content := StringBlob (code out), ast := None\<rparr>)]
              | Some p \<Rightarrow>
                  (\<exists>fresh asset3.
                     p (asset2\<lparr>content := StringBlob (code out), ast := None\<rparr>) cfg = Inr (fresh, asset3)
                     \<and> tr2 = tr1' @ [GenerateCall asset1,
                                    ParseCall (asset2\<lparr>content := StringBlob (code out), ast := None\<rparr>),
                                    TransformCall (asset3\<lparr>ast := fresh\<rparr>)]))"
proof -
  have g: "generate this1 = Some \<lparr>genTransformer = tPrev, genConfig = cfgPrev\<rparr>"
    using runTransformer_remembers_generate [OF prev_cfg prev] .
  from runTransformer_reconciles_ast [OF cfg ast run] noreuse g
  obtain out asset2 where
    call: "callGenerate \<lparr>genTransformer = tPrev, genConfig = cfgPrev\<rparr> asset1 = Inr (out, asset2)"
    and rest: "case parse t of
                None \<Rightarrow>
                  tr2 = tr1' @ [GenerateCall asset1,
                               TransformCall (asset2\<lparr>content := StringBlob (code out), ast := None\<rparr>)]
              | Some p \<Rightarrow>
                  (\<exists>fresh asset3.
                     p (asset2\<lparr>content := StringBlob (code out), ast := None\<rparr>) cfg = Inr (fresh, asset3)
                     \<and> tr2 = tr1' @ [GenerateCall asset1,
                                    ParseCall (asset2\<lparr>content := StringBlob (code out), ast := None\<rparr>),
                                    TransformCall (asset3\<lparr>ast := fresh\<rparr>)])"
    by blast
  from call obtain gen where
    "Transformer.generate tPrev = Some gen" and "gen asset1 cfgPrev = Inr (out, asset2)"
    by (auto simp: callGenerate_def split: option.splits)
  with rest show ?thesis by blast
qed

text \<open>
  Two whole runs of \<open>Pipeline.transform\<close>. When the second stage reuses the AST of the
  first, \<open>generate\<close> is called once, at the end of the pipeline. When it does not, the
  \<open>generate\<close> of the first stage is called between the stages, the second stage parses
  the emitted code, and its own \<open>generate\<close> is called at the end.
\<close>

lemma scenario_ast_handoff_reused:
  "map_sum id (\<lambda>(assets, this, tr). (assets, tr)) (Pipeline_transform exBabelBabel [] exAsset)
     = Inr ([exAssetWithAST\<lparr>content := StringBlob ''generated''\<rparr>],
            [ParseCall exAsset, TransformCall exAssetWithAST, TransformCall exAssetWithAST,
             GenerateCall exAssetWithAST])"
  by (simp add: Pipeline_transform_def finalize_def createChildAsset_def stepdefs
      exBabelBabel_def exEmptyPipeline_def exBabel_def exAssetWithAST_def exAsset_def exAST_def)

lemma scenario_ast_handoff_rejected:
  "map_sum id (\<lambda>(assets, this, tr). (assets, tr)) (Pipeline_transform exBabelReparse [] exAsset)
     = Inr ([exAsset\<lparr>content := StringBlob ''regenerated'', ast := Some exFreshAST\<rparr>],
            [ParseCall exAsset, TransformCall exAssetWithAST, GenerateCall exAssetWithAST,
             ParseCall (exAsset\<lparr>content := StringBlob ''generated''\<rparr>),
             TransformCall (exAsset\<lparr>content := StringBlob ''generated'', ast := Some exFreshAST\<rparr>),
             GenerateCall (exAsset\<lparr>content := StringBlob ''generated'', ast := Some exFreshAST\<rparr>)])"
  by (simp add: Pipeline_transform_def finalize_def createChildAsset_def stepdefs
      exBabelReparse_def exEmptyPipeline_def exBabel_def exReparse_def exAssetWithAST_def
      exAsset_def exAST_def exFreshAST_def)

text \<open>
  C1 says that between two consecutive stages the generate of the stage before is the
  one that is called, and the comment in \<open>runTransformer\<close> says so too (``use the
  previous transform to generate code''). It holds for the first asset of a working
  set only. Here the first stage returns two children with an AST and the second stage
  reuses none: the first child, \<open>exLeft\<close>, is regenerated by the first stage, but by
  then the remembered closure is the one of the second stage, and the second child,
  \<open>exRight\<close>, is regenerated by the second stage's own \<open>generate\<close>, which then parses
  the code that it emitted itself.
\<close>

theorem later_asset_regenerated_by_own_stage:
  "map_sum id (\<lambda>(out, asset). code out)
     (callGenerate \<lparr>genTransformer = exFanOutStage, genConfig = None\<rparr> exRight)
     = Inr ''generated-by-stage-1''
   \<and> map_sum id (\<lambda>(assets, this, tr). tr) (Pipeline_transform exFanOut [] exAsset)
     = Inr [TransformCall exAsset,
            GenerateCall exLeft,
            ParseCall (exLeft\<lparr>content := StringBlob ''generated-by-stage-1'', ast := None\<rparr>),
            TransformCall (exLeft\<lparr>content := StringBlob ''generated-by-stage-1'',
                                  ast := Some exFreshAST\<rparr>),
            GenerateCall exRight,
            ParseCall (exRight\<lparr>content := StringBlob ''generated-by-stage-2'', ast := None\<rparr>),
            TransformCall (exRight\<lparr>content := StringBlob ''generated-by-stage-2'',
                                   ast := Some exFreshAST\<rparr>),
            GenerateCall (exLeft\<lparr>content := StringBlob ''generated-by-stage-1'',
                                 ast := Some exFreshAST\<rparr>),
            GenerateCall (exRight\<lparr>content := StringBlob ''generated-by-stage-2'',
                                  ast := Some exFreshAST\<rparr>)]"
  by (simp add: Pipeline_transform_def finalize_def createChildAsset_def stepdefs exAST_def
      exFreshAST_def exAsset_def exEmptyPipeline_def exFanOutStage_def exSecondStage_def
      exFanOut_def exLeft_def exRight_def)






lemma transformStages_empty_working_set:
  "transformStages this tr initialType stages [] (Some []) finalAssets
     = Inr (Some [], finalAssets, this, tr)"
  by (induction stages) simp_all

lemma transformAssets_finalAssets:
  "transformAssets this tr initialType stage inputAssets resultingAssets finalAssets
     = Inr (resulting', finalAssets', this', tr')
   \<Longrightarrow> finalAssets' = finalAssets @ filter (\<lambda>a. type a \<noteq> initialType) inputAssets"
proof (induction inputAssets arbitrary: this tr resultingAssets finalAssets)
  case Nil
  then show ?case by simp
next
  case (Cons asset rest)
  show ?case
  proof (cases "type asset \<noteq> initialType")
    case True
    then show ?thesis using Cons.IH [of this tr resultingAssets "finalAssets @ [asset]"] Cons.prems
      by simp
  next
    case False
    with Cons.prems obtain p results asset' this1 tr1 where
      "plugin stage = Some p"
      "runTransformer this tr asset p (config stage) = Inr (results, asset', this1, tr1)"
      "transformAssets this1 tr1 initialType stage rest
         (resultingAssets @ List.map (createChildAsset asset') results) finalAssets
       = Inr (resulting', finalAssets', this', tr')"
      by (auto split: option.splits sum.splits)
    then show ?thesis using Cons.IH False by simp
  qed
qed

text \<open>
  C9: in \<open>Pipeline.transform\<close>, an asset of the initial type for which the stage's
  \<open>transform\<close> returns no result adds nothing to the working set of the next stage (and
  it is not itself put on any list). When a stage leaves the working set empty, the
  assets set aside are those from before together with the assets of its working set
  whose type had diverged, the stages after it make no call, and the pipeline returns
  the assets set aside, finalized, and nothing else.
\<close>

theorem empty_results_shrink_working_set:
  "(type asset = initialType \<and> plugin stage = Some p
      \<and> runTransformer this tr asset p (config stage) = Inr ([], asset', this', tr')
      \<longrightarrow> transformAssets this tr initialType stage (asset # rest) resultingAssets finalAssets
            = transformAssets this' tr' initialType stage rest resultingAssets finalAssets)
   \<and> (transformAssets this tr initialType stage inputAssets [] finalAssets
         = Inr ([], finalAssets', this', tr')
      \<longrightarrow> finalAssets' = finalAssets @ filter (\<lambda>a. type a \<noteq> initialType) inputAssets
          \<and> transformStages this tr initialType (stage # stages) inputAssets resulting finalAssets
              = Inr (Some [], finalAssets', this', tr'))
   \<and> (transformStages this tr (type initialAsset) (transformers this) [initialAsset] None []
         = Inr (Some [], finalAssets', this', tr')
      \<longrightarrow> Pipeline_transform this tr initialAsset
            = (case finalizeAll (generate this') tr' finalAssets' of
                 Inl e \<Rightarrow> Inl e
               | Inr (assets, tr'') \<Rightarrow> Inr (assets, this', tr'')))"
proof (intro conjI impI)
  assume "type asset = initialType \<and> plugin stage = Some p
      \<and> runTransformer this tr asset p (config stage) = Inr ([], asset', this', tr')"
  then show "transformAssets this tr initialType stage (asset # rest) resultingAssets finalAssets
            = transformAssets this' tr' initialType stage rest resultingAssets finalAssets"
    by simp
next
  assume h: "transformAssets this tr initialType stage inputAssets [] finalAssets
         = Inr ([], finalAssets', this', tr')"
  then show "finalAssets' = finalAssets @ filter (\<lambda>a. type a \<noteq> initialType) inputAssets"
    by (rule transformAssets_finalAssets)
  show "transformStages this tr initialType (stage # stages) inputAssets resulting finalAssets
              = Inr (Some [], finalAssets', this', tr')"
    using h by (simp add: transformStages_empty_working_set)
next
  assume "transformStages this tr (type initialAsset) (transformers this) [initialAsset] None []
         = Inr (Some [], finalAssets', this', tr')"
  then show "Pipeline_transform this tr initialAsset
            = (case finalizeAll (generate this') tr' finalAssets' of
                 Inl e \<Rightarrow> Inl e
               | Inr (assets, tr'') \<Rightarrow> Inr (assets, this', tr''))"
    by (simp add: Pipeline_transform_def)
qed

theorem empty_results_shrink_working_set_witness:
  "type exScript = ''ts''
   \<and> plugin exDropStage = Some exDrop
   \<and> map_sum id (\<lambda>(results, asset, this, tr). results)
         (runTransformer exAfterPlain [] exScript exDrop (config exDropStage)) = Inr []
   \<and> map_sum id (\<lambda>(resulting, finalAssets, this, tr). (resulting, finalAssets))
         (transformAssets exAfterPlain [] ''ts'' exDropStage [exScript, exStyle] [] [])
       = Inr ([], [exStyle])
   \<and> map_sum id (\<lambda>(resulting, finalAssets, this, tr). (resulting, finalAssets))
         (transformStages exAfterPlain [] ''ts'' [exDropStage, exDropStage] [exScript, exStyle] None [])
       = Inr (Some [], [exStyle])
   \<and> map_sum id (\<lambda>(assets, this, tr). assets) (Pipeline_transform exSplitDropPlain [] exAsset)
       = Inr [exStyle]"
proof -
  have h1: "type exScript = ''ts''" by (simp add: exAsset_def exPlain_def exEmptyPipeline_def
      exConfigs_def exAfterPlain_def exSplit_def exDrop_def exDropStage_def exSplitDropPlain_def
      exStyle_def exScript_def)
  have h2: "plugin exDropStage = Some exDrop" by (simp add: exDropStage_def)
  obtain this1 tr1 where
    h3: "runTransformer exAfterPlain [] exScript exDrop (config exDropStage)
           = Inr ([], exScript, this1, tr1)"
    by (simp add: stepdefs exAsset_def exPlain_def exEmptyPipeline_def exConfigs_def
        exAfterPlain_def exSplit_def exDrop_def exDropStage_def exSplitDropPlain_def exStyle_def
        exScript_def)
  obtain this2 tr2 where
    h4: "transformAssets exAfterPlain [] ''ts'' exDropStage [exScript, exStyle] [] []
           = Inr ([], [exStyle], this2, tr2)"
    by (simp add: stepdefs exAsset_def exPlain_def exEmptyPipeline_def exConfigs_def
        exAfterPlain_def exSplit_def exDrop_def exDropStage_def exSplitDropPlain_def exStyle_def
        exScript_def)
  obtain this3 tr3 where
    h5: "transformStages exSplitDropPlain [] (type exAsset) (transformers exSplitDropPlain)
           [exAsset] None [] = Inr (Some [], [exStyle], this3, tr3)"
    by (simp add: stepdefs exAsset_def exPlain_def exEmptyPipeline_def exConfigs_def
        exAfterPlain_def exSplit_def exDrop_def exDropStage_def exSplitDropPlain_def exStyle_def
        exScript_def createChildAsset_def)
  note thm1 = empty_results_shrink_working_set
    [where asset = exScript and initialType = "''ts''" and stage = exDropStage and p = exDrop
       and this = exAfterPlain and tr = "[]" and asset' = exScript and this' = this1
       and tr' = tr1 and rest = "[exStyle]" and resultingAssets = "[]" and finalAssets = "[]"]
  note thm2 = empty_results_shrink_working_set
    [where stage = exDropStage and initialType = "''ts''" and this = exAfterPlain and tr = "[]"
       and inputAssets = "[exScript, exStyle]" and finalAssets = "[]"
       and finalAssets' = "[exStyle]" and this' = this2 and tr' = tr2
       and stages = "[exDropStage]" and resulting = None]
  note thm3 = empty_results_shrink_working_set
    [where this = exSplitDropPlain and tr = "[]" and initialAsset = exAsset
       and finalAssets' = "[exStyle]" and this' = this3 and tr' = tr3]
  have c2: "transformStages exAfterPlain [] ''ts'' [exDropStage, exDropStage] [exScript, exStyle] None []
              = Inr (Some [], [exStyle], this2, tr2)"
    using thm2 h4 by blast
  have c3: "Pipeline_transform exSplitDropPlain [] exAsset
              = (case finalizeAll (generate this3) tr3 [exStyle] of
                   Inl e \<Rightarrow> Inl e
                 | Inr (assets, tr'') \<Rightarrow> Inr (assets, this3, tr''))"
    using thm3 h5 by blast
  have fin: "finalizeAll (generate this3) tr3 [exStyle] = Inr ([exStyle], tr3)"
    by (simp add: finalize_def exStyle_def exAsset_def split: option.splits)
  show ?thesis
    using thm1 h1 h2 h3 h4 c2 c3 fin by simp
qed
section \<open>Properties of the driver\<close>

text \<open>Running a pipeline changes its two closures only; its configs stay.\<close>

lemma runTransformer_configs:
  "runTransformer this tr asset t cfg = Inr (results, asset', this', tr') \<Longrightarrow> configs this' = configs this"
  by (auto simp: runTransformer_def transformStep_def split: sum.splits prod.splits)

lemma transformAssets_configs:
  "transformAssets this tr ty stage inputAssets resulting finalAssets = Inr (resulting', finalAssets', this', tr')
   \<Longrightarrow> configs this' = configs this"
proof (induction inputAssets arbitrary: this tr resulting finalAssets)
  case Nil
  then show ?case by simp
next
  case (Cons asset rest)
  show ?case
  proof (cases "type asset \<noteq> ty")
    case True
    then show ?thesis using Cons by simp
  next
    case False
    with Cons.prems obtain p results asset' this1 tr1 where
      run: "runTransformer this tr asset p (config stage) = Inr (results, asset', this1, tr1)"
      and rest: "transformAssets this1 tr1 ty stage rest
         (resulting @ List.map (createChildAsset asset') results) finalAssets
       = Inr (resulting', finalAssets', this', tr')"
      by (auto split: option.splits sum.splits)
    from Cons.IH [OF rest] runTransformer_configs [OF run] show ?thesis by simp
  qed
qed

lemma transformStages_configs:
  "transformStages this tr ty stages inputAssets resulting finalAssets = Inr (resulting', finalAssets', this', tr')
   \<Longrightarrow> configs this' = configs this"
proof (induction stages arbitrary: this tr inputAssets resulting finalAssets)
  case Nil
  then show ?case by simp
next
  case (Cons stage stages)
  from Cons.prems obtain res fin this1 tr1 where
    one: "transformAssets this tr ty stage inputAssets [] finalAssets = Inr (res, fin, this1, tr1)"
    and more: "transformStages this1 tr1 ty stages res (Some res) fin = Inr (resulting', finalAssets', this', tr')"
    by (auto split: sum.splits)
  from Cons.IH [OF more] transformAssets_configs [OF one] show ?case by simp
qed

lemma Pipeline_transform_configs:
  "Pipeline_transform this tr initialAsset = Inr (assets, this', tr') \<Longrightarrow> configs this' = configs this"
  by (auto simp: Pipeline_transform_def split: sum.splits option.splits dest: transformStages_configs)

text \<open>
  C5, as stated, fails twice. On a hit, \<open>getCode\<close> is called on the asset that was looked
  up, \<open>exAsset\<close>, and not on the cached asset, \<open>exStyle\<close>. On a miss, the result of
  \<open>pipeline.transform\<close> is stored under the key of the result, \<open>a.ts:h0:js;ts\<close>, and
  nothing is stored under the key that was looked up, \<open>a.ts:h0:ts;ts\<close>.
\<close>

theorem transformOrCached_counterexample:
  "cacheOption exTransformation
   \<and> AssetRequest.code (request exTransformation) = None
   \<and> getCacheKey exTransformation [exAsset] (configs exTsPipeline) = ''a.ts:h0:ts;ts''
   \<and> cache exWarmWorld ''a.ts:h0:ts;ts'' = Some [exStyle]
   \<and> map_sum id (\<lambda>(assets, initialAsset, pipeline, w). (assets, trace w))
         (transformOrCached exTransformation exWarmWorld exTsPipeline exAsset)
       = Inr ([exStyle], [CacheGet ''a.ts:h0:ts;ts'', GetCode exAsset])
   \<and> exStyle \<noteq> exAsset
   \<and> cache exWorld ''a.ts:h0:ts;ts'' = None
   \<and> map_sum id (\<lambda>(assets, initialAsset, pipeline, w). (assets, trace w, cache w ''a.ts:h0:ts;ts''))
         (transformOrCached exTransformation exWorld exTsPipeline exAsset)
       = Inr ([exCommitted],
              [CacheGet ''a.ts:h0:ts;ts'',
               ParseCall exAsset,
               TransformCall (exAsset\<lparr>ast := Some exAST\<rparr>),
               GenerateCall (exAsset\<lparr>type := ''js'', ast := Some exAST\<rparr>),
               Commit exGenerated ''options'',
               CacheSet ''a.ts:h0:js;ts'' [exCommitted]],
              None)"
  by (simp add: Let_def stepdefs driverdefs exAST_def exAsset_def exPlain_def exTypeScript_def
      exConfigs_def exPlainConfigs_def exExtname_def exMd5FromObject_def exResolve_def
      exTransformation_def exWorld_def exTsPipeline_def exStyle_def exWarmWorld_def
      exGenerated_def exCommitted_def)

text \<open>
  C5, amended, with the cache on and no inline code in the request. When the key of
  \<open>[initialAsset]\<close> and the configs of the pipeline is in the cache, the cached list is
  the result, the pipeline is not run (the only calls are the lookup and \<open>getCode\<close> on
  \<open>initialAsset\<close>, the asset that was looked up). When it is not, \<open>pipeline.transform\<close>
  is run on \<open>initialAsset\<close>, every asset of its result is committed, and the result, of
  committed assets, is stored under the key of the result and the configs of the
  pipeline.
\<close>

theorem transformOrCached_hit_miss:
  assumes "cacheOption this" and "AssetRequest.code (request this) = None"
  shows "(cache w (getCacheKey this [initialAsset] (configs pipeline)) = Some cached
          \<longrightarrow> transformOrCached this w pipeline initialAsset
                = Inr (cached, initialAsset, pipeline,
                       w\<lparr>trace := trace w
                            @ [CacheGet (getCacheKey this [initialAsset] (configs pipeline)),
                               GetCode initialAsset]\<rparr>))
       \<and> (cache w (getCacheKey this [initialAsset] (configs pipeline)) = None
          \<and> Pipeline_transform pipeline
               (trace w @ [CacheGet (getCacheKey this [initialAsset] (configs pipeline))])
               initialAsset = Inr (assets, pipeline', tr)
          \<longrightarrow> transformOrCached this w pipeline initialAsset
                = Inr (List.map (commit this) assets,
                       initialAssetAfterTransform pipeline
                         (trace w @ [CacheGet (getCacheKey this [initialAsset] (configs pipeline))])
                         initialAsset,
                       pipeline',
                       w\<lparr>cache := (cache w)(getCacheKey this assets (configs pipeline)
                                      \<mapsto> List.map (commit this) assets),
                         trace := tr
                           @ List.map (\<lambda>asset. Commit asset (md5FromOptions this (impactfulOptions this))) assets
                           @ [CacheSet (getCacheKey this assets (configs pipeline))
                                (List.map (commit this) assets)]\<rparr>))"
proof (intro conjI impI)
  assume "cache w (getCacheKey this [initialAsset] (configs pipeline)) = Some cached"
  then show "transformOrCached this w pipeline initialAsset
                = Inr (cached, initialAsset, pipeline,
                       w\<lparr>trace := trace w
                            @ [CacheGet (getCacheKey this [initialAsset] (configs pipeline)),
                               GetCode initialAsset]\<rparr>)"
    using assms by (simp add: transformOrCached_def readFromCache_def Let_def)
next
  assume h: "cache w (getCacheKey this [initialAsset] (configs pipeline)) = None
          \<and> Pipeline_transform pipeline
               (trace w @ [CacheGet (getCacheKey this [initialAsset] (configs pipeline))])
               initialAsset = Inr (assets, pipeline', tr)"
  then have "configs pipeline' = configs pipeline"
    using Pipeline_transform_configs by blast
  then show "transformOrCached this w pipeline initialAsset
                = Inr (List.map (commit this) assets,
                       initialAssetAfterTransform pipeline
                         (trace w @ [CacheGet (getCacheKey this [initialAsset] (configs pipeline))])
                         initialAsset,
                       pipeline',
                       w\<lparr>cache := (cache w)(getCacheKey this assets (configs pipeline)
                                      \<mapsto> List.map (commit this) assets),
                         trace := tr
                           @ List.map (\<lambda>asset. Commit asset (md5FromOptions this (impactfulOptions this))) assets
                           @ [CacheSet (getCacheKey this assets (configs pipeline))
                                (List.map (commit this) assets)]\<rparr>)"
    using assms h by (simp add: transformOrCached_def readFromCache_def writeToCache_def Let_def)
qed

theorem transformOrCached_hit_miss_witness:
  "cacheOption exTransformation
   \<and> AssetRequest.code (request exTransformation) = None
   \<and> cache exWarmWorld (getCacheKey exTransformation [exAsset] (configs exTsPipeline)) = Some [exStyle]
   \<and> map_sum id (\<lambda>(assets, initialAsset, pipeline, w). (assets, trace w))
         (transformOrCached exTransformation exWarmWorld exTsPipeline exAsset)
       = Inr ([exStyle], [CacheGet ''a.ts:h0:ts;ts'', GetCode exAsset])
   \<and> cache exWorld (getCacheKey exTransformation [exAsset] (configs exTsPipeline)) = None
   \<and> map_sum id (\<lambda>(assets, initialAsset, pipeline, w). (assets, cache w ''a.ts:h0:js;ts''))
         (transformOrCached exTransformation exWorld exTsPipeline exAsset)
       = Inr ([exCommitted], Some [exCommitted])"
proof -
  have h1: "cacheOption exTransformation" by (simp add: exTransformation_def)
  have h2: "AssetRequest.code (request exTransformation) = None" by (simp add: exTransformation_def)
  have key: "getCacheKey exTransformation [exAsset] (configs exTsPipeline) = ''a.ts:h0:ts;ts''"
    by (simp add: getCacheKey_def exAST_def exAsset_def exPlain_def exTypeScript_def
        exConfigs_def exPlainConfigs_def exExtname_def exMd5FromObject_def exResolve_def
        exTransformation_def exWorld_def exTsPipeline_def exStyle_def exWarmWorld_def
        exGenerated_def exCommitted_def)
  have h3: "cache exWarmWorld (getCacheKey exTransformation [exAsset] (configs exTsPipeline)) = Some [exStyle]"
    by (simp add: key) (simp add: exWarmWorld_def)
  have h4: "cache exWorld (getCacheKey exTransformation [exAsset] (configs exTsPipeline)) = None"
    by (simp add: exWorld_def)
  obtain pipeline' tr where
    h5: "Pipeline_transform exTsPipeline
           (trace exWorld @ [CacheGet (getCacheKey exTransformation [exAsset] (configs exTsPipeline))])
           exAsset = Inr ([exGenerated], pipeline', tr)"
    by (simp add: key) (simp add: Let_def stepdefs Pipeline_transform_def finalize_def
        createChildAsset_def exAST_def exAsset_def exPlain_def exTypeScript_def exConfigs_def
        exPlainConfigs_def exExtname_def exMd5FromObject_def exResolve_def exTransformation_def
        exWorld_def exTsPipeline_def exStyle_def exWarmWorld_def exGenerated_def exCommitted_def)
  have key2: "getCacheKey exTransformation [exGenerated] (configs exTsPipeline) = ''a.ts:h0:js;ts''"
    by (simp add: getCacheKey_def exAST_def exAsset_def exPlain_def exTypeScript_def
        exConfigs_def exPlainConfigs_def exExtname_def exMd5FromObject_def exResolve_def
        exTransformation_def exWorld_def exTsPipeline_def exStyle_def exWarmWorld_def
        exGenerated_def exCommitted_def)
  have com: "commit exTransformation exGenerated = exCommitted"
    by (simp add: commit_def contentSize_def exAST_def exAsset_def exPlain_def
        exTypeScript_def exConfigs_def exPlainConfigs_def exExtname_def exMd5FromObject_def
        exResolve_def exTransformation_def exWorld_def exTsPipeline_def exStyle_def
        exWarmWorld_def exGenerated_def exCommitted_def)
  note hit = transformOrCached_hit_miss
    [where this = exTransformation and w = exWarmWorld and pipeline = exTsPipeline
       and initialAsset = exAsset and cached = "[exStyle]", OF h1 h2, THEN conjunct1, rule_format, OF h3]
  note miss = transformOrCached_hit_miss
    [where this = exTransformation and w = exWorld and pipeline = exTsPipeline
       and initialAsset = exAsset and assets = "[exGenerated]" and pipeline' = pipeline' and tr = tr,
     OF h1 h2, THEN conjunct2, rule_format, OF conjI [OF h4 h5]]
  show ?thesis
    using h1 h2 h3 h4 by (simp add: hit miss key key2 com) (simp add: exWarmWorld_def)
qed

text \<open>
  C6: when the \<open>cache\<close> option is false or the request carries inline code,
  \<open>readFromCache\<close> returns \<open>null\<close> and makes no call, whatever it is asked for; so the
  lookup before the pipeline and the lookup before \<open>postProcess\<close> are both skipped.
  The writes still happen: the result of \<open>pipeline.transform\<close> is committed and stored
  under its key, and so is the result of \<open>postProcess\<close> when the pipeline has one.
\<close>

theorem cache_disabled_reads_skipped:
  assumes "cacheOption this = False \<or> AssetRequest.code (request this) \<noteq> None"
  shows "readFromCache this w assets cfgs = (None, w)
       \<and> (Pipeline_transform pipeline (trace w) initialAsset = Inr (assets, pipeline', tr)
          \<longrightarrow> transformOrCached this w pipeline initialAsset
                = Inr (List.map (commit this) assets,
                       initialAssetAfterTransform pipeline (trace w) initialAsset,
                       pipeline',
                       w\<lparr>cache := (cache w)(getCacheKey this assets (configs pipeline')
                                      \<mapsto> List.map (commit this) assets),
                         trace := tr
                           @ List.map (\<lambda>asset. Commit asset (md5FromOptions this (impactfulOptions this))) assets
                           @ [CacheSet (getCacheKey this assets (configs pipeline'))
                                (List.map (commit this) assets)]\<rparr>))
       \<and> (postProcess pipeline = Some pp \<and> callPostProcess pp assets = Inr returned
          \<longrightarrow> (let processed = (case returned of None \<Rightarrow> [] | Some r \<Rightarrow> r) in
               postProcessOrCached this w pipeline assets finalAssets
                 = Inr (List.map (commit this) processed,
                        w\<lparr>cache := (cache w)(getCacheKey this processed (configs pipeline)
                                       \<mapsto> List.map (commit this) processed),
                          trace := trace w @ [PostProcessCall assets]
                            @ List.map (\<lambda>asset. Commit asset (md5FromOptions this (impactfulOptions this))) processed
                            @ [CacheSet (getCacheKey this processed (configs pipeline))
                                 (List.map (commit this) processed)]\<rparr>)))"
proof -
  have read: "\<And>w assets cfgs. readFromCache this w assets cfgs = (None, w)"
    using assms by (auto simp: readFromCache_def)
  show ?thesis
    by (simp add: read transformOrCached_def postProcessOrCached_def writeToCache_def Let_def)
qed

theorem cache_disabled_reads_skipped_witness:
  "cacheOption exNoCache = False
   \<and> readFromCache exNoCache exWarmWorld [exAsset] exConfigs = (None, exWarmWorld)
   \<and> map_sum id (\<lambda>(assets, initialAsset, pipeline, w). (assets, filter isCacheEvent (trace w)))
         (transformOrCached exNoCache exWarmWorld exBundlerPipeline exAsset)
       = Inr ([exCommitted], [CacheSet ''a.ts:h0:js;ts'' [exCommitted]])
   \<and> postProcess exAfterBundler = Some exBundlerClosure
   \<and> callPostProcess exBundlerClosure [exGenerated] = Inr (Some [exBundled])
   \<and> map_sum id (\<lambda>(assets, w). (assets, trace w))
         (postProcessOrCached exNoCache exWarmWorld exAfterBundler [exGenerated] [exMinified])
       = Inr ([exBundledCommitted],
              [PostProcessCall [exGenerated], Commit exBundled ''options'',
               CacheSet ''a.ts:h0:bundle;ts'' [exBundledCommitted]])"
proof -
  have h0: "cacheOption exNoCache = False \<or> AssetRequest.code (request exNoCache) \<noteq> None"
    by (simp add: exNoCache_def)
  obtain pipeline' tr where
    h1: "Pipeline_transform exBundlerPipeline (trace exWarmWorld) exAsset
           = Inr ([exGenerated], pipeline', tr)"
    and cf: "configs pipeline' = exConfigs"
    and tr: "filter isCacheEvent tr = []"
    by (simp add: Let_def stepdefs Pipeline_transform_def finalize_def createChildAsset_def
        isCacheEvent_def exAST_def exFreshAST_def exAsset_def exPlain_def exTypeScript_def
            exConfigs_def exPlainConfigs_def exExtname_def exMd5FromObject_def exResolve_def
            exTransformation_def exStyle_def exWarmWorld_def exBundleResult_def exBundler_def
            exMinify_def exBundlerResolve_def exBundlerTransformation_def exBundlerPipeline_def
            exGenerated_def exMinified_def exBundled_def exCommitted_def exBundledCommitted_def
            isCacheEvent_def exNoCache_def exBundlerClosure_def exAfterBundler_def)
  have h2: "postProcess exAfterBundler = Some exBundlerClosure" by (simp add: exAfterBundler_def)
  have h3: "callPostProcess exBundlerClosure [exGenerated] = Inr (Some [exBundled])"
    by (simp add: callPostProcess_def createChildAsset_def exAST_def exFreshAST_def
        exAsset_def exPlain_def exTypeScript_def exConfigs_def exPlainConfigs_def exExtname_def
        exMd5FromObject_def exResolve_def exTransformation_def exStyle_def exWarmWorld_def
        exBundleResult_def exBundler_def exMinify_def exBundlerResolve_def
        exBundlerTransformation_def exBundlerPipeline_def exGenerated_def exMinified_def
        exBundled_def exCommitted_def exBundledCommitted_def isCacheEvent_def exNoCache_def
        exBundlerClosure_def exAfterBundler_def)
  note inst = cache_disabled_reads_skipped
    [where this = exNoCache and w = exWarmWorld and assets = "[exGenerated]"
       and pipeline' = pipeline' and tr = tr and initialAsset = exAsset and pp = exBundlerClosure
       and returned = "Some [exBundled]" and finalAssets = "[exMinified]", OF h0]
  have r: "readFromCache exNoCache exWarmWorld [exAsset] exConfigs = (None, exWarmWorld)"
    using cache_disabled_reads_skipped [OF h0] by blast
  have k1: "getCacheKey exNoCache [exGenerated] exConfigs = ''a.ts:h0:js;ts''"
    by (simp add: getCacheKey_def exAST_def exFreshAST_def exAsset_def exPlain_def
        exTypeScript_def exConfigs_def exPlainConfigs_def exExtname_def exMd5FromObject_def
        exResolve_def exTransformation_def exStyle_def exWarmWorld_def exBundleResult_def
        exBundler_def exMinify_def exBundlerResolve_def exBundlerTransformation_def
        exBundlerPipeline_def exGenerated_def exMinified_def exBundled_def exCommitted_def
        exBundledCommitted_def isCacheEvent_def exNoCache_def exBundlerClosure_def
        exAfterBundler_def)
  have k2: "getCacheKey exNoCache [exBundled] (configs exAfterBundler) = ''a.ts:h0:bundle;ts''"
    by (simp add: getCacheKey_def exAST_def exFreshAST_def exAsset_def exPlain_def
        exTypeScript_def exConfigs_def exPlainConfigs_def exExtname_def exMd5FromObject_def
        exResolve_def exTransformation_def exStyle_def exWarmWorld_def exBundleResult_def
        exBundler_def exMinify_def exBundlerResolve_def exBundlerTransformation_def
        exBundlerPipeline_def exGenerated_def exMinified_def exBundled_def exCommitted_def
        exBundledCommitted_def isCacheEvent_def exNoCache_def exBundlerClosure_def
        exAfterBundler_def)
  have com1: "commit exNoCache exGenerated = exCommitted"
    by (simp add: commit_def contentSize_def exAST_def exFreshAST_def exAsset_def exPlain_def
        exTypeScript_def exConfigs_def exPlainConfigs_def exExtname_def exMd5FromObject_def
        exResolve_def exTransformation_def exStyle_def exWarmWorld_def exBundleResult_def
        exBundler_def exMinify_def exBundlerResolve_def exBundlerTransformation_def
        exBundlerPipeline_def exGenerated_def exMinified_def exBundled_def exCommitted_def
        exBundledCommitted_def isCacheEvent_def exNoCache_def exBundlerClosure_def
        exAfterBundler_def)
  have com2: "commit exNoCache exBundled = exBundledCommitted"
    by (simp add: commit_def contentSize_def exAST_def exFreshAST_def exAsset_def exPlain_def
        exTypeScript_def exConfigs_def exPlainConfigs_def exExtname_def exMd5FromObject_def
        exResolve_def exTransformation_def exStyle_def exWarmWorld_def exBundleResult_def
        exBundler_def exMinify_def exBundlerResolve_def exBundlerTransformation_def
        exBundlerPipeline_def exGenerated_def exMinified_def exBundled_def exCommitted_def
        exBundledCommitted_def isCacheEvent_def exNoCache_def exBundlerClosure_def
        exAfterBundler_def)
  have c2: "map_sum id (\<lambda>(assets, initialAsset, pipeline, w). (assets, filter isCacheEvent (trace w)))
              (transformOrCached exNoCache exWarmWorld exBundlerPipeline exAsset)
              = Inr ([exCommitted], [CacheSet ''a.ts:h0:js;ts'' [exCommitted]])"
    using inst [where pipeline = exBundlerPipeline] h1
    by (simp add: cf k1 com1 tr isCacheEvent_def)
  have c3: "postProcessOrCached exNoCache exWarmWorld exAfterBundler [exGenerated] [exMinified]
              = Inr ([exBundledCommitted],
                     exWarmWorld\<lparr>cache := (cache exWarmWorld)(''a.ts:h0:bundle;ts'' \<mapsto> [exBundledCommitted]),
                       trace := trace exWarmWorld @ [PostProcessCall [exGenerated],
                         Commit exBundled (md5FromOptions exNoCache (impactfulOptions exNoCache)),
                         CacheSet ''a.ts:h0:bundle;ts'' [exBundledCommitted]]\<rparr>)"
    using inst [where pipeline = exAfterBundler] h2 h3 by (simp add: k2 com2 Let_def)
  show ?thesis
    using h0 r h2 h3 c2
    by (simp add: c3)
       (simp add: exNoCache_def exBundlerTransformation_def exTransformation_def exWarmWorld_def)
qed

text \<open>
  The closure that \<open>runTransformer\<close> stores never returns \<open>null\<close>: a hook that returns
  \<open>null\<close> makes it throw.
\<close>

lemma callPostProcess_not_null: "callPostProcess pp assets \<noteq> Inr None"
  by (simp add: callPostProcess_def split: sum.splits option.splits)


text \<open>
  The loop over the assets: assets of the initial type are carried forward as they are;
  an asset of another type is replaced by what the next pipeline returns for it, or
  carried forward when the pipeline loaded for it has the id of the current one. The
  list from before the loop keeps its length and its order; an asset of the initial type
  is in it as it was, and an asset that was handed to a next pipeline is in it as that
  pipeline left it.
\<close>

lemma dispatch_same_type:
  "\<forall>a \<in> set assets. type a = initialType
   \<Longrightarrow> dispatch recur this pipeline initialAsset initialType assets visited finalAssets w
       = Some (Inr (finalAssets @ assets, visited @ assets, w))"
  by (induction assets arbitrary: visited finalAssets) simp_all

lemma dispatch_changed_type:
  assumes "type asset \<noteq> initialType"
      and "loadNextPipeline this w (filePath initialAsset) (type asset) pipeline = Inr (next, w1)"
  shows "dispatch recur this pipeline initialAsset initialType (asset # rest) visited finalAssets w
       = (case next of
            None \<Rightarrow> dispatch recur this pipeline initialAsset initialType rest
                      (visited @ [asset]) (finalAssets @ [asset]) w1
          | Some nextPipeline \<Rightarrow>
              (case recur nextPipeline asset w1 of
                 None \<Rightarrow> None
               | Some (Inl e) \<Rightarrow> Some (Inl e)
               | Some (Inr (nextPipelineAssets, asset', w2)) \<Rightarrow>
                   dispatch recur this pipeline initialAsset initialType rest
                     (visited @ [asset']) (finalAssets @ nextPipelineAssets) w2))"
  using assms by (simp split: option.splits)

lemma dispatch_visited:
  "dispatch recur this pipeline initialAsset initialType assets visited finalAssets w
     = Some (Inr (finalAssets', visited', w'))
   \<Longrightarrow> \<exists>ys. visited' = visited @ ys
          \<and> list_all2 (\<lambda>a a'. type a = initialType \<longrightarrow> a' = a) assets ys"
proof (induction assets arbitrary: visited finalAssets w)
  case Nil
  then show ?case by simp
next
  case (Cons asset rest)
  from Cons.prems obtain v f u where
    step: "dispatch recur this pipeline initialAsset initialType rest (visited @ [v]) f u
             = Some (Inr (finalAssets', visited', w'))"
    and v: "type asset = initialType \<longrightarrow> v = asset"
    by (auto split: if_splits sum.splits option.splits prod.splits)
  from Cons.IH [OF step] obtain ys where
    "visited' = (visited @ [v]) @ ys"
    and "list_all2 (\<lambda>a a'. type a = initialType \<longrightarrow> a' = a) rest ys"
    by blast
  with v have "visited' = visited @ (v # ys)
      \<and> list_all2 (\<lambda>a a'. type a = initialType \<longrightarrow> a' = a) (asset # rest) (v # ys)"
    by simp
  then show ?case by blast
qed




text \<open>
  The synthetic path of \<open>loadNextPipeline\<close>: a non-empty extension at the end of the path
  is replaced by a dot and the new type; with an empty extension the whole path is lost.
\<close>

lemma nextFilePath_replaces_extension:
  "path = stem @ extname this path \<Longrightarrow> extname this path \<noteq> []
   \<Longrightarrow> nextFilePath this path nextType = stem @ ''.'' @ nextType"
proof -
  assume p: "path = stem @ extname this path" and ne: "extname this path \<noteq> []"
  have "length path = length stem + length (extname this path)"
    by (subst p) simp
  then have "take (length path - length (extname this path)) path = stem"
    by (subst (2) p) simp
  moreover have "- int (length (extname this path)) < 0" using ne by simp
  moreover have "nat (int (length path) + - int (length (extname this path)))
                   = length path - length (extname this path)"
    by simp
  ultimately show ?thesis
    by (simp only: nextFilePath_def slice0_def if_True)
qed

lemma nextFilePath_no_extension:
  "extname this path = [] \<Longrightarrow> nextFilePath this path nextType = ''.'' @ nextType"
  by (simp add: nextFilePath_def slice0_def)

text \<open>
  C2 says that the synthetic next path is the original path with its extension replaced
  by the new type. For \<open>src/Makefile\<close>, which has no extension, and the new type \<open>js\<close>,
  the code computes \<open>.js\<close> and loads the pipeline of that path:
  \<open>filePath.slice(0, -0)\<close> is the empty string.
\<close>

theorem nextFilePath_without_extension:
  "filePath exMakefile = ''src/Makefile''
   \<and> extname exTransformation (filePath exMakefile) = []
   \<and> nextFilePath exTransformation (filePath exMakefile) ''js'' = ''.js''
   \<and> map_sum id (\<lambda>(nextPipeline, w). trace w)
         (loadNextPipeline exTransformation exWorld (filePath exMakefile) ''js'' exTsPipeline)
       = Inr [LoadPipeline ''.js'']"
  by (simp add: loadNextPipeline_def loadPipeline_def nextFilePath_def slice0_def newPipeline_def
      exMakefile_def exAsset_def exTransformation_def exExtname_def exResolve_def exWorld_def
      exPlainConfigs_def exTsPipeline_def)

section \<open>Properties of the mutable asset view\<close>

text \<open>
  C10, as stated, fails on the marks of the dependency: the options that the caller
  passes are spread last, so \<open>isURL: false\<close> in them wins over the \<open>isURL: true\<close> of
  \<open>addURLDependency\<close>.
\<close>

theorem addURLDependency_opts_counterexample:
  "\<not> isURLString exUrlLib ''img.png''
   \<and> pathname (URL_parse exUrlLib ''img.png'') = Some ''img.png''
   \<and> map_sum id (\<lambda>(url, asset). (url, dependencies asset))
         (addURLDependency exUrlLib exAsset ''img.png'' exNotURLOpts)
       = Inr (''dep:img.png'',
              [\<lparr>moduleSpecifier = Some ''img.png'', isURL = Some False, isAsync = Some True,
                isEntry = None, isOptional = None\<rparr>])"
  by (simp add: addURLDependency_def addDependency_def spread_def exUrlLib_def exNotURLOpts_def
      exNoOpts_def exAsset_def Let_def)

text \<open>
  C10, amended. If \<open>url\<close> is an absolute URL or its parsed path name is \<open>null\<close>,
  \<open>addURLDependency\<close> returns \<open>url\<close> and leaves the asset as it is. Otherwise, when the
  path name decodes, exactly one dependency is added through \<open>addDependency\<close>: the options
  \<open>moduleSpecifier\<close> (the decoded path name), \<open>isURL: true\<close> and \<open>isAsync: true\<close>, each
  replaced by the property of the same name in \<open>opts\<close> when \<open>opts\<close> has one; the string
  returned is the URL formatted again with the id of the dependency as its path name.
  When the path name does not decode, the call throws and nothing is added.
\<close>

theorem addURLDependency_effect:
  "(isURLString lib url \<or> pathname (URL_parse lib url) = None
      \<longrightarrow> addURLDependency lib asset url opts = Inr (url, asset))
   \<and> (\<not> isURLString lib url \<and> pathname (URL_parse lib url) = Some p
        \<and> decodeURIComponent lib p = Some specifier
      \<longrightarrow> (let dep = spread \<lparr>moduleSpecifier = Some specifier, isURL = Some True,
                              isAsync = Some True, isEntry = None, isOptional = None\<rparr> opts
           in addURLDependency lib asset url opts
                = Inr (URL_format lib ((URL_parse lib url)\<lparr>pathname := Some (dependencyId lib asset dep)\<rparr>),
                       asset\<lparr>dependencies := dependencies asset @ [dep]\<rparr>)
              \<and> (isURL opts = None \<longrightarrow> isURL dep = Some True)
              \<and> (isAsync opts = None \<longrightarrow> isAsync dep = Some True)
              \<and> (moduleSpecifier opts = None \<longrightarrow> moduleSpecifier dep = Some specifier)))
   \<and> (\<not> isURLString lib url \<and> pathname (URL_parse lib url) = Some p
        \<and> decodeURIComponent lib p = None
      \<longrightarrow> addURLDependency lib asset url opts = Inl URIError)"
  by (auto simp: addURLDependency_def addDependency_def spread_def Let_def)

theorem addURLDependency_effect_witness:
  "isURLString exUrlLib ''http://host/img.png''
   \<and> addURLDependency exUrlLib exAsset ''http://host/img.png'' exNoOpts
       = Inr (''http://host/img.png'', exAsset)
   \<and> \<not> isURLString exUrlLib ''img.png''
   \<and> pathname (URL_parse exUrlLib ''img.png'') = Some ''img.png''
   \<and> decodeURIComponent exUrlLib ''img.png'' = Some ''img.png''
   \<and> isURL exNoOpts = None \<and> isAsync exNoOpts = None \<and> moduleSpecifier exNoOpts = None
   \<and> addURLDependency exUrlLib exAsset ''img.png'' exNoOpts
       = Inr (''dep:img.png'',
              exAsset\<lparr>dependencies :=
                [\<lparr>moduleSpecifier = Some ''img.png'', isURL = Some True, isAsync = Some True,
                  isEntry = None, isOptional = None\<rparr>]\<rparr>)
   \<and> \<not> isURLString exUrlLib ''100%.png''
   \<and> pathname (URL_parse exUrlLib ''100%.png'') = Some ''100%.png''
   \<and> decodeURIComponent exUrlLib ''100%.png'' = None
   \<and> addURLDependency exUrlLib exAsset ''100%.png'' exNoOpts = Inl URIError"
proof -
  have a1: "isURLString exUrlLib ''http://host/img.png''" by (simp add: exUrlLib_def)
  have b1: "\<not> isURLString exUrlLib ''img.png''" by (simp add: exUrlLib_def)
  have b2: "pathname (URL_parse exUrlLib ''img.png'') = Some ''img.png''" by (simp add: exUrlLib_def)
  have b3: "decodeURIComponent exUrlLib ''img.png'' = Some ''img.png''" by (simp add: exUrlLib_def)
  have b4: "isURL exNoOpts = None \<and> isAsync exNoOpts = None \<and> moduleSpecifier exNoOpts = None"
    by (simp add: exNoOpts_def)
  have c1: "\<not> isURLString exUrlLib ''100%.png''" by (simp add: exUrlLib_def)
  have c2: "pathname (URL_parse exUrlLib ''100%.png'') = Some ''100%.png''" by (simp add: exUrlLib_def)
  have c3: "decodeURIComponent exUrlLib ''100%.png'' = None" by (simp add: exUrlLib_def)
  have r1: "addURLDependency exUrlLib exAsset ''http://host/img.png'' exNoOpts
              = Inr (''http://host/img.png'', exAsset)"
    using addURLDependency_effect
      [where lib = exUrlLib and url = "''http://host/img.png''" and asset = exAsset
         and opts = exNoOpts] a1
    by blast
  have r2: "addURLDependency exUrlLib exAsset ''img.png'' exNoOpts
       = Inr (''dep:img.png'',
              exAsset\<lparr>dependencies :=
                [\<lparr>moduleSpecifier = Some ''img.png'', isURL = Some True, isAsync = Some True,
                  isEntry = None, isOptional = None\<rparr>]\<rparr>)"
    using addURLDependency_effect
      [where lib = exUrlLib and url = "''img.png''" and asset = exAsset and opts = exNoOpts
         and p = "''img.png''" and specifier = "''img.png''"] b1 b2 b3
    by (simp add: Let_def spread_def exNoOpts_def exUrlLib_def exAsset_def)
  have r3: "addURLDependency exUrlLib exAsset ''100%.png'' exNoOpts = Inl URIError"
    using addURLDependency_effect
      [where lib = exUrlLib and url = "''100%.png''" and asset = exAsset and opts = exNoOpts
         and p = "''100%.png''"] c1 c2 c3
    by blast
  show ?thesis
    using a1 b1 b2 b3 b4 c1 c2 c3 r1 r2 r3 by blast
qed

end
